theory Spec2Isabelle
  imports Complex_Main "HOL-Library.AList" "HOL-Library.List_Lexorder" "HOL-Library.Char_ord"
begin

section \<open>Wind data formatting: a model of \<open>Wind_Data_Format.py\<close>\<close>

text \<open>
  The program is one class, \<open>Dataformatter\<close>, whose methods transform pandas
  \<open>DataFrame\<close>s of wind measurements. The model below is a shallow embedding:
  a table is a record of column labels (with their dtype kind) and a list of rows, each
  row an association list from column label to cell. Every method becomes a function
  that returns a pair: the caller's table as the call leaves it (several methods assign
  to their argument in place) and the outcome, either the returned table or the
  exception raised.
\<close>

subsection \<open>Floating point numbers\<close>

text \<open>
  A \<open>float64\<close> is modelled by the real number it denotes or one of the three
  non-finite values; the sign of zero is left out. The operations of this section give
  the result before it is rounded: the non-finite values follow IEEE 754 as numpy
  computes them (no exception is raised by a division by zero or by the logarithm of a
  non-positive number). Rounding, with its overflow and underflow, is added to them in
  the section on rounded arithmetic, for the methods that compare a computed number or
  whose result may leave the range of \<open>float64\<close>.
\<close>

datatype fl = Fin real | PInf | NInf | NaN

fun is_finite :: "fl \<Rightarrow> bool" where
  "is_finite (Fin x) = True"
| "is_finite _ = False"

text \<open>Comparisons: every comparison with \<open>NaN\<close> is false.\<close>

fun fle :: "fl \<Rightarrow> fl \<Rightarrow> bool" where
  "fle NaN _ = False"
| "fle _ NaN = False"
| "fle NInf _ = True"
| "fle _ PInf = True"
| "fle (Fin a) (Fin b) = (a \<le> b)"
| "fle PInf _ = False"
| "fle _ NInf = False"

fun flt :: "fl \<Rightarrow> fl \<Rightarrow> bool" where
  "flt NaN _ = False"
| "flt _ NaN = False"
| "flt (Fin a) (Fin b) = (a < b)"
| "flt PInf _ = False"
| "flt _ NInf = False"
| "flt NInf _ = True"
| "flt _ PInf = True"

definition fge :: "fl \<Rightarrow> fl \<Rightarrow> bool" where
  "fge a b = fle b a"

definition fgt :: "fl \<Rightarrow> fl \<Rightarrow> bool" where
  "fgt a b = flt b a"

fun fneg :: "fl \<Rightarrow> fl" where
  "fneg (Fin a) = Fin (- a)"
| "fneg PInf = NInf"
| "fneg NInf = PInf"
| "fneg NaN = NaN"

fun fadd :: "fl \<Rightarrow> fl \<Rightarrow> fl" where
  "fadd NaN _ = NaN"
| "fadd _ NaN = NaN"
| "fadd (Fin a) (Fin b) = Fin (a + b)"
| "fadd PInf NInf = NaN"
| "fadd NInf PInf = NaN"
| "fadd PInf _ = PInf"
| "fadd _ PInf = PInf"
| "fadd NInf _ = NInf"
| "fadd _ NInf = NInf"

definition fsub :: "fl \<Rightarrow> fl \<Rightarrow> fl" where
  "fsub a b = fadd a (fneg b)"

text \<open>The sign of a number as \<open>-1\<close>, \<open>0\<close> or \<open>1\<close>; \<open>NaN\<close> has none.\<close>

fun fsign :: "fl \<Rightarrow> int" where
  "fsign (Fin a) = (if a < 0 then - 1 else if a = 0 then 0 else 1)"
| "fsign PInf = 1"
| "fsign NInf = - 1"
| "fsign NaN = 0"

definition inf_of_sign :: "int \<Rightarrow> fl" where
  "inf_of_sign s = (if s < 0 then NInf else if s = 0 then NaN else PInf)"

fun fmul :: "fl \<Rightarrow> fl \<Rightarrow> fl" where
  "fmul NaN _ = NaN"
| "fmul _ NaN = NaN"
| "fmul (Fin a) (Fin b) = Fin (a * b)"
| "fmul a b = inf_of_sign (fsign a * fsign b)"

fun fdiv :: "fl \<Rightarrow> fl \<Rightarrow> fl" where
  "fdiv NaN _ = NaN"
| "fdiv _ NaN = NaN"
| "fdiv (Fin a) (Fin b) = (if b = 0 then inf_of_sign (fsign (Fin a)) else Fin (a / b))"
| "fdiv (Fin a) _ = Fin 0"
| "fdiv a (Fin b) = inf_of_sign (fsign a * (if b < 0 then - 1 else 1))"
| "fdiv _ _ = NaN"

fun fln :: "fl \<Rightarrow> fl" where
  "fln (Fin a) = (if a < 0 then NaN else if a = 0 then NInf else Fin (ln a))"
| "fln PInf = PInf"
| "fln NInf = NaN"
| "fln NaN = NaN"

fun fsqrt :: "fl \<Rightarrow> fl" where
  "fsqrt (Fin a) = (if a < 0 then NaN else Fin (sqrt a))"
| "fsqrt PInf = PInf"
| "fsqrt NInf = NaN"
| "fsqrt NaN = NaN"

subsection \<open>Tables\<close>

text \<open>
  A cell is a number (the \<open>int64\<close> and \<open>float64\<close> dtypes are not told apart: an
  integer column holds integral numbers), a \<open>datetime64[ns]\<close> value as nanoseconds
  since 1970-01-01 00:00:00 (the wall clock of a naive column, the UTC instant of a
  timezone-aware one), the missing datetime \<open>NaT\<close>, or a Python string of an
  \<open>object\<close> column.
\<close>

datatype cell = Num fl | Datetime int | NaT | Str string

datatype dtype = Numeric | Datetime64 | Datetime64TZ string | ObjectT

text \<open>\<open>is_datetime64_any_dtype\<close>: the dtype is a datetime one, with or without a zone.\<close>

definition is_datetime64_any_dtype :: "dtype \<Rightarrow> bool" where
  "is_datetime64_any_dtype d =
     (case d of Datetime64 \<Rightarrow> True | Datetime64TZ z \<Rightarrow> True | _ \<Rightarrow> False)"

datatype error =
    AssertionError string
  | KeyError string
  | TypeError
  | ValueError

type_synonym row = "(string \<times> cell) list"

text \<open>
  \<open>index\<close> is the index that \<open>set_index\<close> installs (its name, its dtype and one
  label per row); \<open>None\<close> is the default integer index, whose labels never decide
  a cell here and are not modelled.
\<close>

record table =
  index :: "(string \<times> dtype \<times> cell list) option"
  columns :: "(string \<times> dtype) list"
  rows :: "row list"

type_synonym 'a raises = "error + 'a"

text \<open>
  What a method leaves behind: the caller's table after the call, and what the call
  returned or raised.
\<close>

type_synonym outcome = "table \<times> table raises"

text \<open>\<open>row[key]\<close> and \<open>wind_data[key]\<close>: a missing label raises \<open>KeyError\<close>.\<close>

definition getitem :: "row \<Rightarrow> string \<Rightarrow> cell raises" where
  "getitem r k = (case map_of r k of None \<Rightarrow> Inl (KeyError k) | Some c \<Rightarrow> Inr c)"

text \<open>Running a fallible function over a list stops at the first exception.\<close>

fun traverse :: "('a \<Rightarrow> 'b raises) \<Rightarrow> 'a list \<Rightarrow> 'b list raises" where
  "traverse f [] = Inr []"
| "traverse f (x # xs) =
     (case f x of
        Inl e \<Rightarrow> Inl e
      | Inr y \<Rightarrow> (case traverse f xs of Inl e \<Rightarrow> Inl e | Inr ys \<Rightarrow> Inr (y # ys)))"

definition get_column :: "table \<Rightarrow> string \<Rightarrow> (dtype \<times> cell list) raises" where
  "get_column t k =
     (case map_of (columns t) k of
        None \<Rightarrow> Inl (KeyError k)
      | Some d \<Rightarrow>
          (case traverse (\<lambda>r. getitem r k) (rows t) of
             Inl e \<Rightarrow> Inl e
           | Inr cs \<Rightarrow> Inr (d, cs)))"

text \<open>
  \<open>wind_data[key] = series\<close>: an existing column keeps its place, a new one is
  appended; the assignment is to the table object itself.
\<close>

definition setitem :: "table \<Rightarrow> string \<Rightarrow> dtype \<Rightarrow> cell list \<Rightarrow> table" where
  "setitem t k d cs =
     t\<lparr>columns := AList.update k d (columns t),
       rows := map (\<lambda>(r, c). AList.update k c r) (zip (rows t) cs)\<rparr>"

text \<open>The numeric value of a cell, for arithmetic and comparisons with a number.\<close>

fun num_of :: "cell \<Rightarrow> fl raises" where
  "num_of (Num x) = Inr x"
| "num_of _ = Inl TypeError"

text \<open>The dtype pandas infers for a list of computed values.\<close>

fun is_num :: "cell \<Rightarrow> bool" where
  "is_num (Num x) = True"
| "is_num _ = False"

fun is_datetime :: "cell \<Rightarrow> bool" where
  "is_datetime (Datetime x) = True"
| "is_datetime NaT = True"
| "is_datetime _ = False"

definition infer_dtype :: "cell list \<Rightarrow> dtype" where
  "infer_dtype cs =
     (if list_all is_num cs then Numeric
      else if list_all is_datetime cs then Datetime64
      else ObjectT)"

subsection \<open>The directional fusion of the two MET anemometers\<close>

text \<open>
  \<open>self.heights["MET"]\<close> is \<open>[59.1, 46]\<close>; the f-strings of \<open>adjust_wind_met\<close>
  format the two heights as \<open>59.1\<close> and \<open>46\<close>. The direction label holds the degree
  sign, two bytes in UTF-8.
\<close>

definition heights_MET :: "string list" where
  "heights_MET = [''59.1'', ''46'']"

definition wdirec :: string where
  "wdirec = ''Dir 57.2m S ['' @ [CHR 0xC2, CHR 0xB0] @ '']''"

definition east_col :: "string \<Rightarrow> string" where
  "east_col height = ''Spd '' @ height @ ''m E [m/s]''"

definition sw_col :: "string \<Rightarrow> string" where
  "sw_col height = ''Spd '' @ height @ ''m SW [m/s]''"

definition new_col :: "string \<Rightarrow> string" where
  "new_col height = ''adjusted_wind_speed_'' @ height"

text \<open>
  \<open>(row[east_col] + row[sw_col]) / 2\<close>: both labels are read, then added, then halved.
  Two numbers are added and halved as numbers. A missing datetime added to a datetime
  or to another missing one is missing, and so is its half; any other pair cannot be
  added (a number next to a missing datetime is taken to be a float).
\<close>

definition mean_of_two :: "row \<Rightarrow> string \<Rightarrow> string \<Rightarrow> cell raises" where
  "mean_of_two r e s =
     (case getitem r e of
        Inl err \<Rightarrow> Inl err
      | Inr ce \<Rightarrow>
          (case getitem r s of
             Inl err \<Rightarrow> Inl err
           | Inr cs \<Rightarrow>
               (case (num_of ce, num_of cs) of
                  (Inr a, Inr b) \<Rightarrow> Inr (Num (fdiv (fadd a b) (Fin 2)))
                | _ \<Rightarrow>
                    if is_datetime ce \<and> is_datetime cs \<and> (ce = NaT \<or> cs = NaT) then Inr NaT
                    else Inl TypeError)))"

definition adjusted_wind_helper :: "row \<Rightarrow> string \<Rightarrow> string \<Rightarrow> string \<Rightarrow> cell raises" where
  "adjusted_wind_helper r wdir e s =
     (case getitem r wdir of
        Inl err \<Rightarrow> Inl err
      | Inr d \<Rightarrow>
          (case num_of d of
             Inl err \<Rightarrow> Inl err
           | Inr x \<Rightarrow>
               if fge x (Fin 30) \<and> fle x (Fin 60) then getitem r e
               else if fge x (Fin 255) \<and> fle x (Fin 285) then getitem r s
               else mean_of_two r e s))"

text \<open>
  \<open>wind_data.apply(f, axis=1)\<close> calls \<open>f\<close> on every row in order. On a table without
  rows or without columns pandas probes \<open>f\<close> with a row of \<open>NaN\<close>s instead: when the
  probe returns a value, the result repeats it for every row (there may be none); when
  it raises, the result is a copy of the table, and assigning that to one label raises
  \<open>ValueError\<close> unless the table has exactly one column, which is then the value
  assigned.
\<close>

definition apply_rows :: "(row \<Rightarrow> cell raises) \<Rightarrow> table \<Rightarrow> (dtype \<times> cell list) raises" where
  "apply_rows f t =
     (if rows t = [] \<or> columns t = [] then
        (case f (map (\<lambda>(k, d). (k, Num NaN)) (columns t)) of
           Inr v \<Rightarrow>
             Inr (infer_dtype (replicate (length (rows t)) v), replicate (length (rows t)) v)
         | Inl e \<Rightarrow> (case columns t of [(k, d)] \<Rightarrow> Inr (d, []) | _ \<Rightarrow> Inl ValueError))
      else
        (case traverse f (rows t) of
           Inl e \<Rightarrow> Inl e
         | Inr cs \<Rightarrow> Inr (infer_dtype cs, cs)))"

definition adjust_height :: "string \<Rightarrow> table \<Rightarrow> table raises" where
  "adjust_height height wind_data =
     (case apply_rows (\<lambda>r. adjusted_wind_helper r wdirec (east_col height) (sw_col height))
             wind_data of
        Inl e \<Rightarrow> Inl e
      | Inr (d, cs) \<Rightarrow> Inr (setitem wind_data (new_col height) d cs))"

text \<open>The loop over the heights; an exception leaves the columns assigned so far.\<close>

fun adjust_heights :: "string list \<Rightarrow> table \<Rightarrow> outcome" where
  "adjust_heights [] wind_data = (wind_data, Inr wind_data)"
| "adjust_heights (height # hs) wind_data =
     (case adjust_height height wind_data of
        Inl e \<Rightarrow> (wind_data, Inl e)
      | Inr wind_data' \<Rightarrow> adjust_heights hs wind_data')"

text \<open>\<open>wind_data['Pres 2m [hPa]'] / 10\<close>, cell by cell.\<close>

definition div_by :: "fl \<Rightarrow> cell \<Rightarrow> cell raises" where
  "div_by n c = (case num_of c of Inl e \<Rightarrow> Inl e | Inr x \<Rightarrow> Inr (Num (fdiv x n)))"

definition pres_col :: string where
  "pres_col = ''Pres 2m [hPa]''"

definition convert_pressure :: "table \<Rightarrow> table raises" where
  "convert_pressure wind_data =
     (case get_column wind_data pres_col of
        Inl e \<Rightarrow> Inl e
      | Inr (d, cs) \<Rightarrow>
          (case traverse (div_by (Fin 10)) cs of
             Inl e \<Rightarrow> Inl e
           | Inr cs' \<Rightarrow> Inr (setitem wind_data pres_col Numeric cs')))"

definition adjust_wind_met :: "table \<Rightarrow> outcome" where
  "adjust_wind_met wind_data =
     (case adjust_heights heights_MET wind_data of
        (wind_data', Inl e) \<Rightarrow> (wind_data', Inl e)
      | (wind_data', Inr _) \<Rightarrow>
          (case convert_pressure wind_data' of
             Inl e \<Rightarrow> (wind_data', Inl e)
           | Inr wind_data'' \<Rightarrow> (wind_data'', Inr wind_data'')))"

subsection \<open>What the library and the machine know\<close>

text \<open>
  Some things come from data of pandas, or from the arithmetic of the machine, and are
  no part of the program. The model takes them as a parameter:
  \<^item> how a string is read as a date (\<open>parse_datetime\<close>: the nanoseconds of the wall
    clock a string without UTC offset denotes, \<open>None\<close> when pandas cannot read it);
  \<^item> the timezone database (\<open>utcoffset\<close>: the offset in nanoseconds of a zone at a UTC
    instant; \<open>localize\<close>: the UTC instant of a wall clock time in a zone, \<open>None\<close>
    when the time is ambiguous or does not exist there);
  \<^item> the rounding of \<open>float64\<close> (\<open>rnd\<close>: the \<open>float64\<close> that stands for a real
    result, an infinity when the result is out of range);
  \<^item> the logarithm of the C library (\<open>np_log\<close>: \<open>np.log\<close> of a positive finite
    \<open>float64\<close>);
  \<^item> the reductions of pandas, which add up in an order of their own, so that their
    result is no fixed sequence of rounded operations (\<open>series_mean\<close> and
    \<open>series_var\<close>: \<open>Series.mean()\<close> and \<open>Series.var(ddof=0)\<close> of a column with
    at least one number in it; \<open>group_mean\<close>: the mean that
    \<open>resample(freq).mean()\<close> takes of the cells of one bin with at least one number
    among them; \<open>group_mean_datetime\<close>: the mean it takes of the timestamps of one
    bin, computed in \<open>float64\<close> and cast back).
\<close>

record env =
  parse_datetime :: "string \<Rightarrow> int option"
  utcoffset :: "string \<Rightarrow> int \<Rightarrow> int"
  localize :: "string \<Rightarrow> int \<Rightarrow> int option"
  rnd :: "real \<Rightarrow> fl"
  np_log :: "real \<Rightarrow> fl"
  series_mean :: "fl list \<Rightarrow> fl"
  series_var :: "fl list \<Rightarrow> fl"
  group_mean :: "fl list \<Rightarrow> fl"
  group_mean_datetime :: "int list \<Rightarrow> int"

subsection \<open>Rounded arithmetic\<close>

text \<open>
  An operation of \<open>float64\<close> is the exact operation followed by rounding: a finite
  result is replaced by the \<open>float64\<close> that \<open>rnd\<close> gives for it (zero when it
  underflows, an infinity when it overflows), a non-finite one stays. The logarithm of a
  positive number is what the C library returns.
\<close>

definition rounded :: "env \<Rightarrow> fl \<Rightarrow> fl" where
  "rounded env x = (case x of Fin a \<Rightarrow> rnd env a | _ \<Rightarrow> x)"

definition radd :: "env \<Rightarrow> fl \<Rightarrow> fl \<Rightarrow> fl" where
  "radd env a b = rounded env (fadd a b)"

definition rsub :: "env \<Rightarrow> fl \<Rightarrow> fl \<Rightarrow> fl" where
  "rsub env a b = rounded env (fsub a b)"

definition rmul :: "env \<Rightarrow> fl \<Rightarrow> fl \<Rightarrow> fl" where
  "rmul env a b = rounded env (fmul a b)"

definition rdiv :: "env \<Rightarrow> fl \<Rightarrow> fl \<Rightarrow> fl" where
  "rdiv env a b = rounded env (fdiv a b)"

definition rsqrt :: "env \<Rightarrow> fl \<Rightarrow> fl" where
  "rsqrt env a = rounded env (fsqrt a)"

definition rln :: "env \<Rightarrow> fl \<Rightarrow> fl" where
  "rln env x =
     (case x of
        Fin a \<Rightarrow> (if a < 0 then NaN else if a = 0 then NInf else np_log env a)
      | _ \<Rightarrow> fln x)"

subsection \<open>Comparing a column with a boundary\<close>

text \<open>
  \<open>series >= bound\<close>: pandas first makes the boundary comparable with the column's
  dtype (a string against a datetime column is parsed, in the column's zone when it has
  one; a boundary of the wrong kind raises \<open>TypeError\<close>), then compares cell by
  cell. Strings compare as Python compares them, lexicographically; every comparison
  with \<open>NaT\<close> is false.
\<close>

definition comparable_bound :: "env \<Rightarrow> dtype \<Rightarrow> cell \<Rightarrow> cell raises" where
  "comparable_bound env d b =
     (case (d, b) of
        (Datetime64, Datetime x) \<Rightarrow> Inr b
      | (Datetime64, NaT) \<Rightarrow> Inr b
      | (Datetime64, Str s) \<Rightarrow>
          (case parse_datetime env s of None \<Rightarrow> Inl TypeError | Some x \<Rightarrow> Inr (Datetime x))
      | (Datetime64TZ z, Datetime x) \<Rightarrow> Inr b
      | (Datetime64TZ z, NaT) \<Rightarrow> Inr b
      | (Datetime64TZ z, Str s) \<Rightarrow>
          (case parse_datetime env s of
             None \<Rightarrow> Inl TypeError
           | Some w \<Rightarrow>
               (case localize env z w of None \<Rightarrow> Inl ValueError | Some x \<Rightarrow> Inr (Datetime x)))
      | (Numeric, Num x) \<Rightarrow> Inr b
      | (ObjectT, _) \<Rightarrow> Inr b
      | _ \<Rightarrow> Inl TypeError)"

fun cell_le :: "cell \<Rightarrow> cell \<Rightarrow> bool raises" where
  "cell_le (Num a) (Num b) = Inr (fle a b)"
| "cell_le (Datetime a) (Datetime b) = Inr (a \<le> b)"
| "cell_le (Datetime a) NaT = Inr False"
| "cell_le NaT (Datetime b) = Inr False"
| "cell_le NaT NaT = Inr False"
| "cell_le (Str a) (Str b) = Inr (a \<le> b)"
| "cell_le _ _ = Inl TypeError"

definition ge_column :: "env \<Rightarrow> dtype \<times> cell list \<Rightarrow> cell \<Rightarrow> bool list raises" where
  "ge_column env col b =
     (case comparable_bound env (fst col) b of
        Inl e \<Rightarrow> Inl e
      | Inr b' \<Rightarrow> traverse (\<lambda>c. cell_le b' c) (snd col))"

definition le_column :: "env \<Rightarrow> dtype \<times> cell list \<Rightarrow> cell \<Rightarrow> bool list raises" where
  "le_column env col b =
     (case comparable_bound env (fst col) b of
        Inl e \<Rightarrow> Inl e
      | Inr b' \<Rightarrow> traverse (\<lambda>c. cell_le c b') (snd col))"

text \<open>\<open>wind_data.loc[mask]\<close>: a new table of the rows (and index labels) the mask selects.\<close>

definition select_mask :: "bool list \<Rightarrow> 'a list \<Rightarrow> 'a list" where
  "select_mask sel xs = map snd (filter fst (zip sel xs))"

definition loc_mask :: "bool list \<Rightarrow> table \<Rightarrow> table" where
  "loc_mask sel t =
     t\<lparr>index := map_option (\<lambda>(k, d, ls). (k, d, select_mask sel ls)) (index t),
       rows := select_mask sel (rows t)\<rparr>"

subsection \<open>The date-range filter\<close>

definition concurrent_data :: "env \<Rightarrow> table \<Rightarrow> cell \<Rightarrow> cell \<Rightarrow> outcome" where
  "concurrent_data env wind_data start_date end_date =
     (wind_data,
      case get_column wind_data ''Timestamp'' of
        Inl e \<Rightarrow> Inl e
      | Inr col \<Rightarrow>
          (case ge_column env col start_date of
             Inl e \<Rightarrow> Inl e
           | Inr lower \<Rightarrow>
               (case le_column env col end_date of
                  Inl e \<Rightarrow> Inl e
                | Inr upper \<Rightarrow>
                    Inr (loc_mask (map (\<lambda>(a, b). a \<and> b) (zip lower upper)) wind_data))))"

subsection \<open>Wind shear\<close>

text \<open>
  \<open>np.log(wsp_1 / wsp_0) / np.log(102 / 46)\<close>, cell by cell, in \<open>float64\<close>: the
  quotient of the speeds is rounded (it may underflow to zero or overflow to an
  infinity), then its logarithm is divided by the logarithm of the rounded quotient of
  the heights. numpy warns about a division by zero or an invalid logarithm and returns
  the non-finite value.
\<close>

definition shear_of :: "env \<Rightarrow> fl \<Rightarrow> fl \<Rightarrow> fl" where
  "shear_of env wsp_1 wsp_0 =
     rdiv env (rln env (rdiv env wsp_1 wsp_0)) (rln env (rdiv env (Fin 102) (Fin 46)))"

definition shear_cell :: "env \<Rightarrow> cell \<times> cell \<Rightarrow> cell raises" where
  "shear_cell env p =
     (case (num_of (fst p), num_of (snd p)) of
        (Inr a, Inr b) \<Rightarrow> Inr (Num (shear_of env a b))
      | _ \<Rightarrow> Inl TypeError)"

text \<open>
  numpy computes the quotient and its logarithm for two columns of a numeric dtype. A
  datetime column cannot be divided. With a column of dtype \<open>object\<close> the quotient is
  a column of Python objects, and \<open>np.log\<close> raises \<open>TypeError\<close> on the first of
  them, so that only a column without rows passes.
\<close>

definition log_quotient_dtypes :: "dtype \<Rightarrow> dtype \<Rightarrow> nat \<Rightarrow> bool" where
  "log_quotient_dtypes d1 d0 n =
     (\<not> is_datetime64_any_dtype d1 \<and> \<not> is_datetime64_any_dtype d0 \<and>
      (d1 = ObjectT \<or> d0 = ObjectT \<longrightarrow> n = 0))"

text \<open>\<open>lidar_data[[k1, k2]]\<close>: a new table of the listed columns, in the listed order.\<close>

definition select_columns :: "table \<Rightarrow> string list \<Rightarrow> table raises" where
  "select_columns t ks =
     (case traverse (\<lambda>k. case map_of (columns t) k of
                             None \<Rightarrow> Inl (KeyError k) | Some d \<Rightarrow> Inr (k, d)) ks of
        Inl e \<Rightarrow> Inl e
      | Inr cols \<Rightarrow>
          (case traverse (\<lambda>r. traverse (\<lambda>k. case getitem r k of
                                                 Inl e \<Rightarrow> Inl e | Inr c \<Rightarrow> Inr (k, c)) ks)
                  (rows t) of
             Inl e \<Rightarrow> Inl e
           | Inr rs \<Rightarrow> Inr (t\<lparr>columns := cols, rows := rs\<rparr>)))"

definition wind_shear :: "env \<Rightarrow> table \<Rightarrow> outcome" where
  "wind_shear env lidar_data =
     (case get_column lidar_data ''Spd 102m [m/s]'' of
        Inl e \<Rightarrow> (lidar_data, Inl e)
      | Inr (d1, wsp_1) \<Rightarrow>
          (case get_column lidar_data ''Spd 46m [m/s]'' of
             Inl e \<Rightarrow> (lidar_data, Inl e)
           | Inr (d0, wsp_0) \<Rightarrow>
               if \<not> log_quotient_dtypes d1 d0 (length (rows lidar_data))
               then (lidar_data, Inl TypeError)
               else
                 (case traverse (shear_cell env) (zip wsp_1 wsp_0) of
                    Inl e \<Rightarrow> (lidar_data, Inl e)
                  | Inr shear \<Rightarrow>
                      (let lidar_data' = setitem lidar_data ''shear'' Numeric shear
                       in (lidar_data', select_columns lidar_data' [''Timestamp'', ''shear''])))))"

subsection \<open>Rescaling the training labels\<close>

text \<open>
  \<open>np.mean\<close> and \<open>np.std\<close> of a pandas series call the series' own \<open>mean\<close> and
  \<open>std\<close>, the latter with \<open>ddof=0\<close>, the population standard deviation: both
  skip \<open>NaN\<close>, and without any number left both are \<open>NaN\<close>. The standard
  deviation is the rounded square root of the variance.
\<close>

definition not_nan :: "fl \<Rightarrow> bool" where
  "not_nan x = (x \<noteq> NaN)"

definition nanmean :: "env \<Rightarrow> fl list \<Rightarrow> fl" where
  "nanmean env xs =
     (let ys = filter not_nan xs
      in if ys = [] then NaN else series_mean env xs)"

definition nanvar :: "env \<Rightarrow> fl list \<Rightarrow> fl" where
  "nanvar env xs =
     (let ys = filter not_nan xs
      in if ys = [] then NaN else series_var env xs)"

definition nanstd :: "env \<Rightarrow> fl list \<Rightarrow> fl" where
  "nanstd env xs = rsqrt env (nanvar env xs)"

text \<open>
  \<open>scaled_data.loc[mask, key] *= factor\<close>: the selected cells of the column are read,
  multiplied in \<open>float64\<close> and written back.
\<close>

definition scale_cell :: "env \<Rightarrow> string \<Rightarrow> fl \<Rightarrow> row \<times> bool \<Rightarrow> row" where
  "scale_cell env k factor p =
     (if snd p then
        (case map_of (fst p) k of
           Some (Num v) \<Rightarrow> AList.update k (Num (rmul env v factor)) (fst p)
         | _ \<Rightarrow> fst p)
      else fst p)"

definition scale_where :: "env \<Rightarrow> bool list \<Rightarrow> string \<Rightarrow> fl \<Rightarrow> table \<Rightarrow> table" where
  "scale_where env sel k factor t =
     t\<lparr>rows := map (scale_cell env k factor) (zip (rows t) sel)\<rparr>"

definition speed_col :: string where
  "speed_col = ''adjusted_wind_speed_59.1''"

text \<open>
  A column read as numbers, as \<open>np.mean\<close>, the comparisons and the multiplication
  need it: a datetime column cannot be multiplied, nor can a cell that is no number.
\<close>

definition numeric_column :: "table \<Rightarrow> string \<Rightarrow> fl list raises" where
  "numeric_column t k =
     (case get_column t k of
        Inl e \<Rightarrow> Inl e
      | Inr (d, cs) \<Rightarrow> if is_datetime64_any_dtype d then Inl TypeError else traverse num_of cs)"

text \<open>
  The two thresholds are a rounded sum and a rounded difference of the mean and the
  standard deviation that the library returns; the comparisons with them are exact.
\<close>

definition scale_training_data :: "env \<Rightarrow> table \<Rightarrow> fl \<Rightarrow> fl \<Rightarrow> outcome" where
  "scale_training_data env wind_data scale_up scale_mid =
     (wind_data,
      case numeric_column wind_data speed_col of
        Inl e \<Rightarrow> Inl e
      | Inr xs \<Rightarrow>
          (let mean = nanmean env xs;
               std = nanstd env xs;
               high_threshold = radd env mean std;
               mid_threshold = rsub env mean std;
               scaled_data = wind_data;
               high_ix = map (\<lambda>x. fgt x high_threshold) xs;
               mid_ix = map (\<lambda>x. flt x mid_threshold) xs
           in Inr (scale_where env mid_ix speed_col scale_mid
                    (scale_where env high_ix speed_col scale_up scaled_data))))"

text \<open>The default of the third argument: \<open>scale_mid=1\<close>.\<close>

definition scale_mid_default :: fl where
  "scale_mid_default = Fin 1"

subsection \<open>Calendar fields of a timestamp\<close>

definition ns_per_hour :: int where
  "ns_per_hour = 3600000000000"

definition ns_per_day :: int where
  "ns_per_day = 24 * ns_per_hour"

text \<open>
  The year and the day within the year (from 0) of a day number counted from
  1970-01-01, as pandas computes them: the count is taken relative to 2000-01-01 and
  broken down by the cycles of 400, 100 and 4 years of the Gregorian calendar.
\<close>

definition days_to_yearsdays :: "int \<Rightarrow> int \<times> int" where
  "days_to_yearsdays days0 =
     (let days = days0 - (365 * 30 + 7);
          year = 400 * (days div 146097);
          days = days mod 146097
      in if 366 \<le> days then
           (let year = year + 100 * ((days - 1) div 36524);
                days = (days - 1) mod 36524
            in if 365 \<le> days then
                 (let year = year + 4 * ((days + 1) div 1461);
                      days = (days + 1) mod 1461
                  in if 366 \<le> days then (year + (days - 1) div 365 + 2000, (days - 1) mod 365)
                     else (year + 2000, days))
               else (year + 2000, days))
         else (year + 2000, days))"

text \<open>\<open>.dt.dayofyear\<close> (from 1) and \<open>.dt.hour\<close> of a wall clock time.\<close>

definition dayofyear :: "int \<Rightarrow> int" where
  "dayofyear t = snd (days_to_yearsdays (t div ns_per_day)) + 1"

definition hour :: "int \<Rightarrow> int" where
  "hour t = (t mod ns_per_day) div ns_per_hour"

text \<open>\<open>(ts.dt.dayofyear - 1) * 24 + ts.dt.hour\<close>, the expression of both formatters.\<close>

definition hour_of_year :: "int \<Rightarrow> int" where
  "hour_of_year t = (dayofyear t - 1) * 24 + hour t"

text \<open>
  The wall clock time that a date and a time of day denote, as \<open>pd.Timestamp\<close> reads
  \<open>2021-01-02 03:00:00\<close>: the days of the civil date since 1970-01-01, then hours,
  minutes and seconds.
\<close>

definition days_from_civil :: "int \<Rightarrow> int \<Rightarrow> int \<Rightarrow> int" where
  "days_from_civil y m d =
     (let y' = (if m \<le> 2 then y - 1 else y);
          era = y' div 400;
          yoe = y' - era * 400;
          doy = (153 * (if 2 < m then m - 3 else m + 9) + 2) div 5 + d - 1;
          doe = yoe * 365 + yoe div 4 - yoe div 100 + doy
      in era * 146097 + doe - 719468)"

definition timestamp :: "int \<Rightarrow> int \<Rightarrow> int \<Rightarrow> int \<Rightarrow> int \<Rightarrow> int \<Rightarrow> int" where
  "timestamp y m d h mi s =
     (((days_from_civil y m d * 24 + h) * 60 + mi) * 60 + s) * 1000000000"

subsection \<open>Timezones of a datetime column\<close>

text \<open>
  A timezone-aware column stores UTC instants; its wall clock adds the offset of the
  zone, which is zero for UTC itself. A naive column stores the wall clock.
\<close>

definition zone_offset :: "env \<Rightarrow> string \<Rightarrow> int \<Rightarrow> int" where
  "zone_offset env z t = (if z = ''UTC'' then 0 else utcoffset env z t)"

definition wall_clock :: "env \<Rightarrow> dtype \<Rightarrow> int \<Rightarrow> int" where
  "wall_clock env d t = (case d of Datetime64TZ z \<Rightarrow> t + zone_offset env z t | _ \<Rightarrow> t)"

text \<open>
  \<open>pd.to_datetime(value, utc=True)\<close>: the UTC instant of one value. A datetime keeps
  its number (a naive one is read as UTC), a string is parsed, a finite number counts
  nanoseconds since the epoch, and \<open>NaN\<close> and \<open>NaT\<close> give \<open>NaT\<close>.
\<close>

definition to_datetime_utc :: "env \<Rightarrow> cell \<Rightarrow> cell raises" where
  "to_datetime_utc env c =
     (case c of
        Datetime t \<Rightarrow> Inr (Datetime t)
      | NaT \<Rightarrow> Inr NaT
      | Str s \<Rightarrow> (case parse_datetime env s of None \<Rightarrow> Inl ValueError | Some t \<Rightarrow> Inr (Datetime t))
      | Num (Fin x) \<Rightarrow> Inr (Datetime \<lfloor>x\<rfloor>)
      | Num NaN \<Rightarrow> Inr NaT
      | Num _ \<Rightarrow> Inl ValueError)"

text \<open>
  Functions of the \<open>.dt\<close> accessor, on one cell of a column of dtype \<open>d\<close>; the
  calendar fields of \<open>NaT\<close> are \<open>NaN\<close>.
\<close>

definition dt_hour_of_year :: "env \<Rightarrow> dtype \<Rightarrow> cell \<Rightarrow> cell raises" where
  "dt_hour_of_year env d c =
     (case c of
        Datetime t \<Rightarrow> Inr (Num (Fin (of_int (hour_of_year (wall_clock env d t)))))
      | NaT \<Rightarrow> Inr (Num NaN)
      | _ \<Rightarrow> Inl TypeError)"

definition dt_tz_localize_None :: "env \<Rightarrow> dtype \<Rightarrow> cell \<Rightarrow> cell raises" where
  "dt_tz_localize_None env d c =
     (case c of
        Datetime t \<Rightarrow> Inr (Datetime (wall_clock env d t))
      | NaT \<Rightarrow> Inr NaT
      | _ \<Rightarrow> Inl TypeError)"

text \<open>
  \<open>table[target] = f(table[source])\<close> for a cell-wise \<open>f\<close>: the source column is
  read, every cell is converted, and the result is assigned with its dtype.
\<close>

definition assign_from :: "table \<Rightarrow> string \<Rightarrow> dtype \<Rightarrow> string \<Rightarrow> (dtype \<Rightarrow> cell \<Rightarrow> cell raises)
    \<Rightarrow> table raises" where
  "assign_from t target d' source f =
     (case get_column t source of
        Inl e \<Rightarrow> Inl e
      | Inr (d, cs) \<Rightarrow>
          (case traverse (f d) cs of
             Inl e \<Rightarrow> Inl e
           | Inr cs' \<Rightarrow> Inr (setitem t target d' cs')))"

subsection \<open>Resampling\<close>

text \<open>
  \<open>set_index(key, inplace=True)\<close> moves a column into the index;
  \<open>reset_index(inplace=True)\<close> moves the index back as the first column (a default
  index becomes a column \<open>index\<close> of row numbers) and refuses a label that exists.
\<close>

definition set_index :: "table \<Rightarrow> string \<Rightarrow> table raises" where
  "set_index t k =
     (case get_column t k of
        Inl e \<Rightarrow> Inl e
      | Inr (d, cs) \<Rightarrow>
          Inr \<lparr>index = Some (k, d, cs),
               columns = AList.delete k (columns t),
               rows = map (AList.delete k) (rows t)\<rparr>)"

definition reset_index :: "table \<Rightarrow> table raises" where
  "reset_index t =
     (let (k, d, ls) =
            (case index t of
               None \<Rightarrow> (''index'', Numeric, map (\<lambda>i. Num (Fin (real i))) [0 ..< length (rows t)])
             | Some x \<Rightarrow> x)
      in if k \<in> fst ` set (columns t) then Inl ValueError
         else Inr \<lparr>index = None,
                   columns = (k, d) # columns t,
                   rows = map (\<lambda>(l, r). (k, l) # r) (zip ls (rows t))\<rparr>)"

text \<open>
  The cells of a datetime column as numbers, \<open>None\<close> for \<open>NaT\<close>; a column of
  anything else cannot be resampled by, nor averaged as, a datetime column.
\<close>

definition time_of :: "cell \<Rightarrow> int option raises" where
  "time_of c = (case c of Datetime t \<Rightarrow> Inr (Some t) | NaT \<Rightarrow> Inr None | _ \<Rightarrow> Inl TypeError)"

definition datetimes :: "cell list \<Rightarrow> int option list raises" where
  "datetimes cs = traverse time_of cs"

definition present :: "int option list \<Rightarrow> int list" where
  "present us = List.map_filter (\<lambda>u. u) us"

text \<open>
  The bins of \<open>resample(freq)\<close> for a fixed width \<open>w\<close>, closed and labelled on the
  left, with the default origin \<open>start_day\<close>: midnight of the day of the first
  timestamp (in the zone of the index, when it has one). The first bin is the last
  multiple of \<open>w\<close> after the origin that is not after the first timestamp, and bins
  follow each other up to the one that holds the last timestamp. A row whose label is
  \<open>NaT\<close> is in no bin.
\<close>

definition normalize :: "env \<Rightarrow> dtype \<Rightarrow> int \<Rightarrow> int raises" where
  "normalize env d t =
     (case d of
        Datetime64TZ z \<Rightarrow>
          (if z = ''UTC'' then Inr ((t div ns_per_day) * ns_per_day)
           else (case localize env z ((wall_clock env d t div ns_per_day) * ns_per_day) of
                   None \<Rightarrow> Inl ValueError
                 | Some t0 \<Rightarrow> Inr t0))
      | _ \<Rightarrow> Inr ((t div ns_per_day) * ns_per_day))"

definition bin_labels :: "int \<Rightarrow> int \<Rightarrow> int \<Rightarrow> int \<Rightarrow> int list" where
  "bin_labels origin w t_first t_last =
     (let fresult = t_first - (t_first - origin) mod w;
          lresult = t_last - (t_last - origin) mod w + w
      in map (\<lambda>k. fresult + int k * w) [0 ..< nat ((lresult - fresult) div w)])"

definition in_bin :: "int \<Rightarrow> int \<Rightarrow> int option \<Rightarrow> bool" where
  "in_bin w b u = (case u of None \<Rightarrow> False | Some t \<Rightarrow> b \<le> t \<and> t < b + w)"

text \<open>
  \<open>.mean()\<close> averages a column of numbers and a further datetime column, and raises
  \<open>TypeError\<close> on a column with a cell of any other kind. The values of a column are
  read as numbers unless its dtype is a datetime one.
\<close>

datatype series = Numbers "fl list" | Times "int option list"

definition column_values :: "table \<Rightarrow> string \<times> dtype \<Rightarrow> (string \<times> series) raises" where
  "column_values t kd =
     (if is_datetime64_any_dtype (snd kd) then
        (case get_column t (fst kd) of
           Inl e \<Rightarrow> Inl e
         | Inr (d, cs) \<Rightarrow>
             (case datetimes cs of Inl e \<Rightarrow> Inl e | Inr us \<Rightarrow> Inr (fst kd, Times us)))
      else
        (case numeric_column t (fst kd) of
           Inl e \<Rightarrow> Inl e
         | Inr xs \<Rightarrow> Inr (fst kd, Numbers xs)))"

definition mean_dtype :: "dtype \<Rightarrow> dtype" where
  "mean_dtype d = (if is_datetime64_any_dtype d then d else Numeric)"

text \<open>
  The mean of one column over the rows of one bin: \<open>NaN\<close> and \<open>NaT\<close> are skipped,
  a bin without a number gives \<open>NaN\<close>, and one without a timestamp gives \<open>NaT\<close>.
\<close>

definition bin_mean :: "env \<Rightarrow> fl list \<Rightarrow> fl" where
  "bin_mean env xs =
     (let ys = filter not_nan xs
      in if ys = [] then NaN else group_mean env xs)"

definition bin_cell :: "env \<Rightarrow> int \<Rightarrow> int option list \<Rightarrow> int \<Rightarrow> series \<Rightarrow> cell" where
  "bin_cell env w ts b s =
     (case s of
        Numbers xs \<Rightarrow> Num (bin_mean env (select_mask (map (in_bin w b) ts) xs))
      | Times us \<Rightarrow>
          (case present (select_mask (map (in_bin w b) ts) us) of
             [] \<Rightarrow> NaT
           | v # vs \<Rightarrow> Datetime (group_mean_datetime env (v # vs))))"

definition bin_row :: "env \<Rightarrow> int \<Rightarrow> int option list \<Rightarrow> (string \<times> series) list \<Rightarrow> int \<Rightarrow> row" where
  "bin_row env w ts cols b = map (\<lambda>(k, s). (k, bin_cell env w ts b s)) cols"

text \<open>
  \<open>resample(freq).mean()\<close> needs a datetime index. A table without rows gives one
  without rows; an index without a single timestamp has no first day to count the bins
  from, and \<open>ValueError\<close> is raised.
\<close>

definition resample_mean :: "env \<Rightarrow> int \<Rightarrow> table \<Rightarrow> table raises" where
  "resample_mean env w t =
     (case index t of
        None \<Rightarrow> Inl TypeError
      | Some (k, d, ls) \<Rightarrow>
          if \<not> is_datetime64_any_dtype d then Inl TypeError
          else
            (case datetimes ls of
               Inl e \<Rightarrow> Inl e
             | Inr ts \<Rightarrow>
                 (case traverse (column_values t) (columns t) of
                    Inl e \<Rightarrow> Inl e
                  | Inr cols \<Rightarrow>
                      (case present ts of
                         [] \<Rightarrow>
                           if ts = [] then
                             Inr \<lparr>index = Some (k, d, []),
                                  columns = map (\<lambda>(c, dc). (c, mean_dtype dc)) (columns t),
                                  rows = []\<rparr>
                           else Inl ValueError
                       | t0 # rest \<Rightarrow>
                           (case normalize env d (fold min rest t0) of
                              Inl e \<Rightarrow> Inl e
                            | Inr origin \<Rightarrow>
                                (let labels = bin_labels origin w (fold min rest t0)
                                                (fold max rest t0)
                                 in Inr \<lparr>index = Some (k, d, map Datetime labels),
                                         columns = map (\<lambda>(c, dc). (c, mean_dtype dc)) (columns t),
                                         rows = map (bin_row env w ts cols) labels\<rparr>))))))"

text \<open>The check both resampling methods start with.\<close>

definition assert_datetime :: "table \<Rightarrow> unit raises" where
  "assert_datetime wind_data =
     (case map_of (columns wind_data) ''Timestamp'' of
        None \<Rightarrow> Inl (KeyError ''Timestamp'')
      | Some d \<Rightarrow>
          if is_datetime64_any_dtype d then Inr ()
          else Inl (AssertionError ''Timestamp is not a datetime object''))"

text \<open>
  \<open>set_index\<close>, \<open>resample(freq).mean()\<close> and \<open>reset_index\<close>. The index is set on
  the caller's table, which keeps it; the resampled table is a new one.
\<close>

definition resample_table :: "env \<Rightarrow> int \<Rightarrow> table \<Rightarrow> outcome" where
  "resample_table env w wind_data =
     (case assert_datetime wind_data of
        Inl e \<Rightarrow> (wind_data, Inl e)
      | Inr _ \<Rightarrow>
          (case set_index wind_data ''Timestamp'' of
             Inl e \<Rightarrow> (wind_data, Inl e)
           | Inr wind_data' \<Rightarrow>
               (wind_data',
                case resample_mean env w wind_data' of
                  Inl e \<Rightarrow> Inl e
                | Inr resampled \<Rightarrow> reset_index resampled)))"

definition hour3_format :: "env \<Rightarrow> table \<Rightarrow> outcome" where
  "hour3_format env wind_data = resample_table env (6 * ns_per_hour) wind_data"

definition hourly_format :: "env \<Rightarrow> table \<Rightarrow> outcome" where
  "hourly_format env wind_data =
     (case resample_table env ns_per_hour wind_data of
        (wind_data', Inl e) \<Rightarrow> (wind_data', Inl e)
      | (wind_data', Inr hourly_data) \<Rightarrow>
          (wind_data',
           case assign_from hourly_data ''Timestamp'' (Datetime64TZ ''UTC'') ''Timestamp''
                  (\<lambda>d. to_datetime_utc env) of
             Inl e \<Rightarrow> Inl e
           | Inr hourly_data1 \<Rightarrow>
               (case assign_from hourly_data1 ''hour'' Numeric ''Timestamp''
                       (dt_hour_of_year env) of
                  Inl e \<Rightarrow> Inl e
                | Inr hourly_data2 \<Rightarrow>
                    assign_from hourly_data2 ''Timestamp'' Datetime64 ''Timestamp''
                      (dt_tz_localize_None env))))"

subsection \<open>The reanalysis formatter\<close>

definition era5_col :: string where
  "era5_col = ''Date/time [UTC]''"

text \<open>\<open>rename(columns={old: new})\<close>, on the labels and on every row.\<close>

definition rename_column :: "string \<Rightarrow> string \<Rightarrow> table \<Rightarrow> table" where
  "rename_column old new t =
     t\<lparr>columns := map (\<lambda>(k, d). (if k = old then new else k, d)) (columns t),
       rows := map (map (\<lambda>(k, c). (if k = old then new else k, c))) (rows t)\<rparr>"

text \<open>
  The three assignments to \<open>wind_data\<close> are made on the caller's table; the filtered
  rows are a copy, on which the zone is dropped and the column renamed.
\<close>

definition format_era5 :: "env \<Rightarrow> table \<Rightarrow> outcome" where
  "format_era5 env wind_data =
     (case assign_from wind_data era5_col (Datetime64TZ ''UTC'') era5_col
             (\<lambda>d. to_datetime_utc env) of
        Inl e \<Rightarrow> (wind_data, Inl e)
      | Inr wind_data1 \<Rightarrow>
          (case assign_from wind_data1 era5_col (Datetime64TZ ''US/Mountain'') era5_col
                  (\<lambda>d c. Inr c) of
             Inl e \<Rightarrow> (wind_data1, Inl e)
           | Inr wind_data2 \<Rightarrow>
               (case assign_from wind_data2 ''hour'' Numeric era5_col (dt_hour_of_year env) of
                  Inl e \<Rightarrow> (wind_data2, Inl e)
                | Inr wind_data3 \<Rightarrow>
                    (wind_data3,
                     case get_column wind_data3 era5_col of
                       Inl e \<Rightarrow> Inl e
                     | Inr col \<Rightarrow>
                         (case ge_column env col (Str ''2000-01-01 00:00:00'') of
                            Inl e \<Rightarrow> Inl e
                          | Inr keep \<Rightarrow>
                              (case assign_from (loc_mask keep wind_data3) era5_col Datetime64
                                      era5_col (dt_tz_localize_None env) of
                                 Inl e \<Rightarrow> Inl e
                               | Inr formatted_data \<Rightarrow>
                                   Inr (rename_column era5_col ''Timestamp''
                                          formatted_data)))))))"

subsection \<open>Example tables\<close>

text \<open>
  A MET table of four observations, with directions in the north-easterly sector, in
  the westerly sector and outside both.
\<close>

definition met_row :: "real \<Rightarrow> real \<Rightarrow> real \<Rightarrow> real \<Rightarrow> real \<Rightarrow> real \<Rightarrow> row" where
  "met_row d e1 s1 e2 s2 p =
     [(wdirec, Num (Fin d)),
      (east_col ''59.1'', Num (Fin e1)), (sw_col ''59.1'', Num (Fin s1)),
      (east_col ''46'', Num (Fin e2)), (sw_col ''46'', Num (Fin s2)),
      (pres_col, Num (Fin p))]"

definition met_example :: table where
  "met_example =
     \<lparr>index = None,
      columns = map (\<lambda>(k, c). (k, Numeric)) (met_row 0 0 0 0 0 0),
      rows = [met_row 45 8 2 7 3 1013, met_row 270 8 2 7 3 1000,
              met_row 0 8 2 7 3 990, met_row 170 9 4 6 1 1013]\<rparr>"

text \<open>
  Arithmetic that does not round, for the examples: every result is taken as it is, the
  mean is the sum of the numbers divided by their count, and the variance is the mean of
  their squared distances from the mean.
\<close>

definition fsum :: "fl list \<Rightarrow> fl" where
  "fsum xs = foldl fadd (Fin 0) xs"

definition exact_mean :: "fl list \<Rightarrow> fl" where
  "exact_mean xs =
     (let ys = filter not_nan xs in fdiv (fsum ys) (Fin (real (length ys))))"

definition exact_var :: "fl list \<Rightarrow> fl" where
  "exact_var xs =
     (let ys = filter not_nan xs; avg = exact_mean ys
      in fdiv (fsum (map (\<lambda>y. fmul (fsub avg y) (fsub avg y)) ys)) (Fin (real (length ys))))"

text \<open>
  An environment for the examples: it reads the date the program itself writes and the
  three dates of the reanalysis example, its zones keep Mountain Standard Time, seven
  hours behind UTC, all year, and its arithmetic does not round.
\<close>

definition mst_env :: env where
  "mst_env =
     \<lparr>parse_datetime =
        map_of [(''2000-01-01 00:00:00'', timestamp 2000 1 1 0 0 0),
                (''2000-01-01T06:00:00'', timestamp 2000 1 1 6 0 0),
                (''2000-01-01T07:00:00'', timestamp 2000 1 1 7 0 0),
                (''2000-01-02T12:00:00'', timestamp 2000 1 2 12 0 0)],
      utcoffset = (\<lambda>z t. - 7 * ns_per_hour),
      localize = (\<lambda>z w. Some (w + 7 * ns_per_hour)),
      rnd = Fin,
      np_log = (\<lambda>x. Fin (ln x)),
      series_mean = exact_mean,
      series_var = exact_var,
      group_mean = exact_mean,
      group_mean_datetime = (\<lambda>ts. sum_list ts div int (length ts))\<rparr>"


text \<open>Four hourly observations, at 00:00, 01:00, 02:00 and 03:00 of 1970-01-01.\<close>

definition obs_row :: "int \<Rightarrow> real \<Rightarrow> row" where
  "obs_row t v = [(''Timestamp'', Datetime t), (speed_col, Num (Fin v))]"

definition obs_example :: table where
  "obs_example =
     \<lparr>index = None,
      columns = [(''Timestamp'', Datetime64), (speed_col, Numeric)],
      rows = [obs_row 0 1, obs_row 3600000000000 3, obs_row 7200000000000 5,
              obs_row 10800000000000 7]\<rparr>"

text \<open>
  Three lidar observations: both speeds positive, both negative, and a reference speed
  of zero; and the table of shear values computed from them.
\<close>

definition lidar_row :: "int \<Rightarrow> real \<Rightarrow> real \<Rightarrow> row" where
  "lidar_row t a b =
     [(''Timestamp'', Datetime t), (''Spd 102m [m/s]'', Num (Fin a)),
      (''Spd 46m [m/s]'', Num (Fin b))]"

definition lidar_example :: table where
  "lidar_example =
     \<lparr>index = None,
      columns = [(''Timestamp'', Datetime64), (''Spd 102m [m/s]'', Numeric),
                 (''Spd 46m [m/s]'', Numeric)],
      rows = [lidar_row 0 10 8, lidar_row 600000000000 (- 10) (- 8),
              lidar_row 1200000000000 9 0]\<rparr>"

definition lidar_sheared :: table where
  "lidar_sheared =
     \<lparr>index = None,
      columns = [(''Timestamp'', Datetime64), (''shear'', Numeric)],
      rows = [[(''Timestamp'', Datetime 0), (''shear'', Num (Fin (ln (5 / 4) / ln (51 / 23))))],
              [(''Timestamp'', Datetime 600000000000),
               (''shear'', Num (Fin (ln (5 / 4) / ln (51 / 23))))],
              [(''Timestamp'', Datetime 1200000000000), (''shear'', Num PInf)]]\<rparr>"

text \<open>
  Ten speeds with mean 4 and population standard deviation 1, and two speeds with mean 2
  and standard deviation 1 (both of them on a threshold).
\<close>

definition speeds_example :: table where
  "speeds_example =
     \<lparr>index = None,
      columns = [(''Timestamp'', Datetime64), (speed_col, Numeric)],
      rows = map (\<lambda>(t, v). obs_row t v)
        [(0, 2), (1, 3), (2, 4), (3, 4), (4, 4), (5, 4), (6, 4), (7, 4), (8, 5), (9, 6)]\<rparr>"

definition pair_example :: table where
  "pair_example =
     \<lparr>index = None,
      columns = [(''Timestamp'', Datetime64), (speed_col, Numeric)],
      rows = [obs_row 0 1, obs_row 3600000000000 3]\<rparr>"

text \<open>
  A table whose timestamps were read as text, and three ten-minute observations of
  2021-01-02: two in the hour from 03:00, none in the hour from 04:00, one in the hour
  from 05:00.
\<close>

definition text_example :: table where
  "text_example =
     \<lparr>index = None,
      columns = [(''Timestamp'', ObjectT), (speed_col, Numeric)],
      rows = [[(''Timestamp'', Str ''2021-01-02 03:10:00''), (speed_col, Num (Fin 1))]]\<rparr>"

definition tenmin_example :: table where
  "tenmin_example =
     \<lparr>index = None,
      columns = [(''Timestamp'', Datetime64), (speed_col, Numeric)],
      rows = [obs_row (timestamp 2021 1 2 3 10 0) 1, obs_row (timestamp 2021 1 2 3 50 0) 3,
              obs_row (timestamp 2021 1 2 5 30 0) 5]\<rparr>"

text \<open>What the two resampling methods make of the three observations.\<close>

definition tenmin_hourly :: table where
  "tenmin_hourly =
     \<lparr>index = None,
      columns = [(''Timestamp'', Datetime64), (speed_col, Numeric), (''hour'', Numeric)],
      rows = [[(''Timestamp'', Datetime (timestamp 2021 1 2 3 0 0)), (speed_col, Num (Fin 2)),
               (''hour'', Num (Fin 27))],
              [(''Timestamp'', Datetime (timestamp 2021 1 2 4 0 0)), (speed_col, Num NaN),
               (''hour'', Num (Fin 28))],
              [(''Timestamp'', Datetime (timestamp 2021 1 2 5 0 0)), (speed_col, Num (Fin 5)),
               (''hour'', Num (Fin 29))]]\<rparr>"

definition tenmin_6h :: table where
  "tenmin_6h =
     \<lparr>index = None,
      columns = [(''Timestamp'', Datetime64), (speed_col, Numeric)],
      rows = [[(''Timestamp'', Datetime (timestamp 2021 1 2 0 0 0)), (speed_col, Num (Fin 3))]]\<rparr>"

text \<open>
  Three reanalysis records as they come from the file, at 06:00 and 07:00 UTC of
  2000-01-01 (23:00 of the day before and midnight in Mountain Standard Time) and at
  12:00 UTC of 2000-01-02; and the table the formatter makes of them.
\<close>

definition era_example :: table where
  "era_example =
     \<lparr>index = None,
      columns = [(era5_col, ObjectT), (''wind_speed'', Numeric)],
      rows = [[(era5_col, Str ''2000-01-01T06:00:00''), (''wind_speed'', Num (Fin 4))],
              [(era5_col, Str ''2000-01-01T07:00:00''), (''wind_speed'', Num (Fin 5))],
              [(era5_col, Str ''2000-01-02T12:00:00''), (''wind_speed'', Num (Fin 6))]]\<rparr>"

definition era_formatted :: table where
  "era_formatted =
     \<lparr>index = None,
      columns = [(''Timestamp'', Datetime64), (''wind_speed'', Numeric), (''hour'', Numeric)],
      rows = [[(''Timestamp'', Datetime (timestamp 2000 1 1 0 0 0)), (''wind_speed'', Num (Fin 5)),
               (''hour'', Num (Fin 0))],
              [(''Timestamp'', Datetime (timestamp 2000 1 2 5 0 0)), (''wind_speed'', Num (Fin 6)),
               (''hour'', Num (Fin 29))]]\<rparr>"






section \<open>Properties\<close>

subsection \<open>Auxiliary facts about rows and columns\<close>

lemma traverse_length: "traverse f xs = Inr ys \<Longrightarrow> length ys = length xs"
  by (induction xs arbitrary: ys) (auto split: sum.splits)

lemma traverse_nth:
  "traverse f xs = Inr ys \<Longrightarrow> i < length xs \<Longrightarrow> f (xs ! i) = Inr (ys ! i)"
proof (induction xs arbitrary: ys i)
  case Nil
  then show ?case by simp
next
  case (Cons x xs)
  then show ?case by (cases i) (auto split: sum.splits)
qed

lemma getitem_update:
  "getitem (AList.update k c r) k' = (if k' = k then Inr c else getitem r k')"
  by (simp add: getitem_def update_conv')

lemma setitem_rows:
  "length cs = length (rows t) \<Longrightarrow> i < length (rows t) \<Longrightarrow>
   rows (setitem t k d cs) ! i = AList.update k (cs ! i) (rows t ! i)"
  by (simp add: setitem_def)

lemma setitem_length:
  "length cs = length (rows t) \<Longrightarrow> length (rows (setitem t k d cs)) = length (rows t)"
  by (simp add: setitem_def)

lemma apply_rows_result:
  assumes "apply_rows f t = Inr (d, cs)" and "f [] = Inl e0"
  shows "length cs = length (rows t) \<and> (\<forall>i < length (rows t). f (rows t ! i) = Inr (cs ! i))"
proof (cases "rows t = []")
  case True
  with assms(1) show ?thesis
    by (auto simp: apply_rows_def split: sum.splits list.splits if_splits prod.splits)
next
  case False
  show ?thesis
  proof (cases "columns t = []")
    case True
    with assms show ?thesis
      by (simp add: apply_rows_def)
  next
    case columns: False
    with False assms(1) obtain "traverse f (rows t) = Inr cs"
      by (auto simp: apply_rows_def split: sum.splits)
    then show ?thesis
      using traverse_length traverse_nth by blast
  qed
qed

lemma adjust_height_rows:
  assumes "adjust_height h t = Inr t'"
  shows "length (rows t') = length (rows t) \<and>
    (\<forall>i < length (rows t). \<exists>c.
        adjusted_wind_helper (rows t ! i) wdirec (east_col h) (sw_col h) = Inr c \<and>
        rows t' ! i = AList.update (new_col h) c (rows t ! i))"
proof -
  from assms obtain d cs where
    a: "apply_rows (\<lambda>r. adjusted_wind_helper r wdirec (east_col h) (sw_col h)) t = Inr (d, cs)"
    and t': "t' = setitem t (new_col h) d cs"
    by (auto simp: adjust_height_def split: sum.splits prod.splits)
  have "adjusted_wind_helper [] wdirec (east_col h) (sw_col h) = Inl (KeyError wdirec)"
    by (simp add: adjusted_wind_helper_def getitem_def)
  from apply_rows_result[OF a this] show ?thesis
    by (simp add: t' setitem_rows setitem_length)
qed

lemma convert_pressure_rows:
  assumes "convert_pressure t = Inr t'"
  shows "length (rows t') = length (rows t) \<and>
    (\<forall>i < length (rows t). \<exists>c. rows t' ! i = AList.update pres_col c (rows t ! i))"
proof -
  from assms obtain d cs cs' where
    g: "get_column t pres_col = Inr (d, cs)" and tr: "traverse (div_by (Fin 10)) cs = Inr cs'"
    and t': "t' = setitem t pres_col Numeric cs'"
    by (auto simp: convert_pressure_def split: sum.splits prod.splits)
  from g have "length cs = length (rows t)"
    by (auto simp: get_column_def split: option.splits sum.splits dest: traverse_length)
  with traverse_length[OF tr] have "length cs' = length (rows t)" by simp
  then show ?thesis by (auto simp: t' setitem_rows setitem_length)
qed


lemma adjust_heights_MET:
  "adjust_heights heights_MET t =
     (case adjust_height ''59.1'' t of
        Inl e \<Rightarrow> (t, Inl e)
      | Inr t1 \<Rightarrow>
          (case adjust_height ''46'' t1 of Inl e \<Rightarrow> (t1, Inl e) | Inr t2 \<Rightarrow> (t2, Inr t2)))"
  by (simp add: heights_MET_def split: sum.splits)

lemma adjust_wind_met_steps:
  assumes "adjust_wind_met t = (t', Inr out)"
  shows "\<exists>t1 t2. adjust_height ''59.1'' t = Inr t1 \<and> adjust_height ''46'' t1 = Inr t2 \<and>
    convert_pressure t2 = Inr out \<and> t' = out"
proof (cases "adjust_height ''59.1'' t")
  case (Inl e)
  with assms show ?thesis
    by (simp add: adjust_wind_met_def adjust_heights_MET)
next
  case t1: (Inr t1)
  show ?thesis
  proof (cases "adjust_height ''46'' t1")
    case (Inl e)
    with assms t1 show ?thesis
      by (simp add: adjust_wind_met_def adjust_heights_MET)
  next
    case t2: (Inr t2)
    with assms t1 show ?thesis
      by (cases "convert_pressure t2") (auto simp: adjust_wind_met_def adjust_heights_MET)
  qed
qed

lemma helper_value:
  assumes "map_of r wdirec = Some (Num d)"
    and "map_of r (east_col h) = Some (Num e)"
    and "map_of r (sw_col h) = Some (Num s)"
  shows "adjusted_wind_helper r wdirec (east_col h) (sw_col h) =
    Inr (Num (if fge d (Fin 30) \<and> fle d (Fin 60) then e
              else if fge d (Fin 255) \<and> fle d (Fin 285) then s
              else fdiv (fadd e s) (Fin 2)))"
  using assms by (simp add: adjusted_wind_helper_def getitem_def mean_of_two_def)

subsection \<open>Directional fusion\<close>

text \<open>
  Claim C1. Whenever \<open>adjust_wind_met\<close> returns a table, then for each of the two
  configured heights and every input row with numeric direction, east and south-west
  readings, the adjusted speed of that row is the east reading if the direction lies
  in [30, 60], else the south-west reading if it lies in [255, 285], and the arithmetic
  mean of the two readings otherwise.
\<close>

theorem adjust_wind_met_fusion:
  assumes run: "adjust_wind_met wind_data = (wind_data', Inr out)"
    and h: "height \<in> set heights_MET"
    and i: "i < length (rows wind_data)"
    and d: "map_of (rows wind_data ! i) wdirec = Some (Num d)"
    and e: "map_of (rows wind_data ! i) (east_col height) = Some (Num e)"
    and s: "map_of (rows wind_data ! i) (sw_col height) = Some (Num s)"
  shows "map_of (rows out ! i) (new_col height) =
    Some (Num (if fge d (Fin 30) \<and> fle d (Fin 60) then e
               else if fge d (Fin 255) \<and> fle d (Fin 285) then s
               else fdiv (fadd e s) (Fin 2)))"
proof -
  let ?r = "rows wind_data ! i"
  let ?v = "Num (if fge d (Fin 30) \<and> fle d (Fin 60) then e
               else if fge d (Fin 255) \<and> fle d (Fin 285) then s
               else fdiv (fadd e s) (Fin 2))"
  from run obtain t1 t2 where
    s1: "adjust_height ''59.1'' wind_data = Inr t1" and
    s2: "adjust_height ''46'' t1 = Inr t2" and
    s3: "convert_pressure t2 = Inr out"
    using adjust_wind_met_steps by blast
  from adjust_height_rows[OF s1] i obtain c1 where
    l1: "length (rows t1) = length (rows wind_data)" and
    c1: "adjusted_wind_helper ?r wdirec (east_col ''59.1'') (sw_col ''59.1'') = Inr c1" and
    r1: "rows t1 ! i = AList.update (new_col ''59.1'') c1 ?r"
    by blast
  from adjust_height_rows[OF s2] i l1 obtain c2 where
    l2: "length (rows t2) = length (rows wind_data)" and
    c2: "adjusted_wind_helper (rows t1 ! i) wdirec (east_col ''46'') (sw_col ''46'') = Inr c2" and
    r2: "rows t2 ! i = AList.update (new_col ''46'') c2 (rows t1 ! i)"
    by force
  from convert_pressure_rows[OF s3] i l2 obtain c3 where
    r3: "rows out ! i = AList.update pres_col c3 (rows t2 ! i)"
    by force
  have m59: "map_of (rows t1 ! i) k = map_of ?r k" if "k \<noteq> new_col ''59.1''" for k
    using that by (simp add: r1 update_conv')
  from h consider "height = ''59.1''" | "height = ''46''"
    by (auto simp: heights_MET_def)
  then show ?thesis
  proof cases
    case 1
    from helper_value[OF d e s] c1 have "c1 = ?v" by (simp add: 1)
    moreover have "new_col ''59.1'' \<noteq> new_col ''46''" "new_col ''59.1'' \<noteq> pres_col"
      by (simp_all add: new_col_def pres_col_def)
    ultimately show ?thesis
      by (simp add: 1 r3 r2 r1 update_conv')
  next
    case 2
    have "map_of (rows t1 ! i) wdirec = Some (Num d)"
      "map_of (rows t1 ! i) (east_col ''46'') = Some (Num e)"
      "map_of (rows t1 ! i) (sw_col ''46'') = Some (Num s)"
      using d e s 2 by (simp_all add: m59 wdirec_def east_col_def sw_col_def new_col_def)
    from helper_value[OF this] c2 have "c2 = ?v" by simp
    moreover have "new_col ''46'' \<noteq> pres_col"
      by (simp add: new_col_def pres_col_def)
    ultimately show ?thesis
      by (simp add: 2 r3 r2 update_conv')
  qed
qed

lemma met_example_runs: "\<exists>out. adjust_wind_met met_example = (out, Inr out)"
  by (simp add: adjust_wind_met_def adjust_heights_MET adjust_height_def apply_rows_def
      met_example_def met_row_def adjusted_wind_helper_def getitem_def mean_of_two_def
      wdirec_def east_col_def sw_col_def new_col_def pres_col_def fge_def infer_dtype_def
      setitem_def convert_pressure_def get_column_def div_by_def)

theorem adjust_wind_met_fusion_witness:
  "\<exists>out. adjust_wind_met met_example = (out, Inr out) \<and>
     map_of (rows out ! 0) (new_col ''59.1'') = Some (Num (Fin 8)) \<and>
     map_of (rows out ! 1) (new_col ''46'') = Some (Num (Fin 3)) \<and>
     map_of (rows out ! 2) (new_col ''59.1'') = Some (Num (Fin 5)) \<and>
     map_of (rows out ! 3) (new_col ''46'') = Some (Num (Fin (7 / 2)))"
proof -
  from met_example_runs obtain out where run: "adjust_wind_met met_example = (out, Inr out)"
    by blast
  have h: "''59.1'' \<in> set heights_MET" "''46'' \<in> set heights_MET"
    by (simp_all add: heights_MET_def)
  have a: "map_of (rows out ! 0) (new_col ''59.1'') = Some (Num (Fin 8))"
    using adjust_wind_met_fusion [OF run h(1), of 0 "Fin 45" "Fin 8" "Fin 2"]
    by (simp add: met_example_def met_row_def wdirec_def east_col_def sw_col_def fge_def)
  have b: "map_of (rows out ! 1) (new_col ''46'') = Some (Num (Fin 3))"
    using adjust_wind_met_fusion [OF run h(2), of 1 "Fin 270" "Fin 7" "Fin 3"]
    by (simp add: met_example_def met_row_def wdirec_def east_col_def sw_col_def fge_def)
  have c: "map_of (rows out ! 2) (new_col ''59.1'') = Some (Num (Fin 5))"
    using adjust_wind_met_fusion [OF run h(1), of 2 "Fin 0" "Fin 8" "Fin 2"]
    by (simp add: met_example_def met_row_def wdirec_def east_col_def sw_col_def fge_def)
  have d: "map_of (rows out ! 3) (new_col ''46'') = Some (Num (Fin (7 / 2)))"
    using adjust_wind_met_fusion [OF run h(2), of 3 "Fin 170" "Fin 6" "Fin 1"]
    by (simp add: met_example_def met_row_def wdirec_def east_col_def sw_col_def fge_def)
  from run a b c d show ?thesis by blast
qed

subsection \<open>Bounds on two logarithms\<close>

lemma exp_partial_sum_le:
  fixes x :: real
  assumes "0 \<le> x"
  shows "(\<Sum>m<n. x ^ m / fact m) \<le> exp x"
proof -
  from Maclaurin_exp_le [of x n] obtain t where
    "exp x = (\<Sum>m<n. x ^ m / fact m) + (exp t / fact n) * x ^ n"
    by blast
  moreover have "0 \<le> (exp t / fact n) * x ^ n"
    using assms by simp
  ultimately show ?thesis by linarith
qed

lemma exp_le_partial_sum:
  fixes x :: real
  assumes "0 \<le> x" "x \<le> 1"
  shows "exp x \<le> (\<Sum>m<n. x ^ m / fact m) + 3 * x ^ n / fact n"
proof -
  from Maclaurin_exp_le [of x n] obtain t where t: "\<bar>t\<bar> \<le> \<bar>x\<bar>" and
    e: "exp x = (\<Sum>m<n. x ^ m / fact m) + (exp t / fact n) * x ^ n"
    by blast
  from t assms have "t \<le> 1" by linarith
  then have "exp t \<le> exp 1" by simp
  also have "\<dots> \<le> 3" by (rule exp_le)
  finally have "exp t \<le> 3" .
  then have "(exp t / fact n) * x ^ n \<le> (3 / fact n) * x ^ n"
    using assms by (intro mult_right_mono divide_right_mono) simp_all
  with e show ?thesis by simp
qed

lemma ln_lower: "0 < y \<Longrightarrow> exp x \<le> y \<Longrightarrow> x \<le> ln (y::real)"
  using ln_ge_iff by blast

lemma ln_upper: "0 < y \<Longrightarrow> y \<le> exp x \<Longrightarrow> ln (y::real) \<le> x"
  by (metis exp_ln ln_le_cancel_iff exp_gt_zero ln_exp)

lemma ln_5_4_lower: "2231 / 10000 \<le> ln (5 / 4 :: real)"
proof (rule ln_lower)
  show "exp (2231 / 10000 :: real) \<le> 5 / 4"
    using exp_le_partial_sum [of "2231 / 10000" 5]
    by (simp add: lessThan_Suc numeral_eq_Suc fact_numeral)
qed simp

lemma ln_5_4_upper: "ln (5 / 4 :: real) \<le> 2232 / 10000"
proof (rule ln_upper)
  show "5 / 4 \<le> exp (2232 / 10000 :: real)"
    using exp_partial_sum_le [of "2232 / 10000" 5]
    by (simp add: lessThan_Suc numeral_eq_Suc fact_numeral)
qed simp

lemma ln_51_23_lower: "795 / 1000 \<le> ln (51 / 23 :: real)"
proof (rule ln_lower)
  show "exp (795 / 1000 :: real) \<le> 51 / 23"
    using exp_le_partial_sum [of "795 / 1000" 7]
    by (simp add: lessThan_Suc numeral_eq_Suc fact_numeral)
qed simp

lemma ln_51_23_upper: "ln (51 / 23 :: real) \<le> 7975 / 10000"
proof (rule ln_upper)
  show "51 / 23 \<le> exp (7975 / 10000 :: real)"
    using exp_partial_sum_le [of "7975 / 10000" 6]
    by (simp add: lessThan_Suc numeral_eq_Suc fact_numeral)
qed simp

lemma shear_10_8_bounds:
  "2796 / 10000 < ln (5 / 4) / ln (51 / 23 :: real)"
  "ln (5 / 4) / ln (51 / 23 :: real) < 2808 / 10000"
proof -
  let ?a = "ln (5 / 4 :: real)" and ?b = "ln (51 / 23 :: real)"
  have b: "0 < ?b" using ln_51_23_lower by linarith
  have "2796 / 10000 * ?b < ?a"
    using ln_5_4_lower ln_51_23_upper by linarith
  with b show "2796 / 10000 < ?a / ?b" by (simp add: pos_less_divide_eq)
  have "?a < 2808 / 10000 * ?b"
    using ln_5_4_upper ln_51_23_lower by linarith
  with b show "?a / ?b < 2808 / 10000" by (simp add: pos_divide_less_eq)
qed

subsection \<open>Wind shear\<close>

lemma get_column_cells:
  assumes "get_column t k = Inr (d, cs)"
  shows "map_of (columns t) k = Some d \<and> length cs = length (rows t) \<and>
    (\<forall>i < length (rows t). map_of (rows t ! i) k = Some (cs ! i))"
proof -
  from assms have d: "map_of (columns t) k = Some d"
    and tr: "traverse (\<lambda>r. getitem r k) (rows t) = Inr cs"
    by (auto simp: get_column_def split: option.splits sum.splits)
  have "map_of (rows t ! i) k = Some (cs ! i)" if "i < length (rows t)" for i
    using traverse_nth[OF tr that] by (simp add: getitem_def split: option.splits)
  then have "\<forall>i < length (rows t). map_of (rows t ! i) k = Some (cs ! i)"
    by blast
  with d traverse_length[OF tr] show ?thesis by simp
qed

lemma select_two_columns:
  assumes "select_columns t [k1, k2] = Inr out"
  shows "map fst (columns out) = [k1, k2] \<and> length (rows out) = length (rows t) \<and>
    (\<forall>i < length (rows t). \<exists>c1 c2. map_of (rows t ! i) k1 = Some c1 \<and>
        map_of (rows t ! i) k2 = Some c2 \<and> rows out ! i = [(k1, c1), (k2, c2)])"
proof -
  let ?pick = "\<lambda>r. traverse (\<lambda>k. case getitem r k of Inl e \<Rightarrow> Inl e | Inr c \<Rightarrow> Inr (k, c)) [k1, k2]"
  from assms obtain cols rs where
    cols: "traverse (\<lambda>k. case map_of (columns t) k of None \<Rightarrow> Inl (KeyError k)
                         | Some d \<Rightarrow> Inr (k, d)) [k1, k2] = Inr cols"
    and rs: "traverse ?pick (rows t) = Inr rs"
    and out: "out = t\<lparr>columns := cols, rows := rs\<rparr>"
    by (auto simp: select_columns_def split: sum.splits)
  from cols have "map fst cols = [k1, k2]"
    by (auto split: option.splits sum.splits)
  moreover have "\<exists>c1 c2. map_of (rows t ! i) k1 = Some c1 \<and>
        map_of (rows t ! i) k2 = Some c2 \<and> rs ! i = [(k1, c1), (k2, c2)]"
    if "i < length (rows t)" for i
    using traverse_nth[OF rs that]
    by (auto simp: getitem_def split: option.splits sum.splits)
  ultimately show ?thesis
    using traverse_length[OF rs] by (simp add: out)
qed

lemma ln_51_23_nonzero: "ln (51 / 23 :: real) \<noteq> 0" "\<not> ln (51 / 23 :: real) < 0"
  using ln_51_23_lower by simp_all

lemma lidar_example_sheared: "snd (wind_shear mst_env lidar_example) = Inr lidar_sheared"
  by (simp add: wind_shear_def get_column_def lidar_example_def lidar_row_def getitem_def
      shear_cell_def shear_of_def rdiv_def rln_def rounded_def mst_env_def setitem_def
      select_columns_def lidar_sheared_def inf_of_sign_def ln_51_23_nonzero
      log_quotient_dtypes_def is_datetime64_any_dtype_def)

subsection \<open>Rounding that keeps zero and the order\<close>

lemma rnd_nonpos:
  assumes zero: "rnd env 0 = Fin 0"
    and mono: "\<forall>x y. x \<le> y \<longrightarrow> fle (rnd env x) (rnd env y)"
    and x: "x \<le> 0"
  shows "rnd env x = NInf \<or> (\<exists>y\<le>0. rnd env x = Fin y)"
proof -
  from mono x have "fle (rnd env x) (rnd env 0)" by blast
  with zero have "fle (rnd env x) (Fin 0)" by simp
  then show ?thesis by (cases "rnd env x") simp_all
qed

lemma rnd_nonneg:
  assumes zero: "rnd env 0 = Fin 0"
    and mono: "\<forall>x y. x \<le> y \<longrightarrow> fle (rnd env x) (rnd env y)"
    and x: "0 \<le> x"
  shows "rnd env x = PInf \<or> (\<exists>y\<ge>0. rnd env x = Fin y)"
proof -
  from mono x have "fle (rnd env 0) (rnd env x)" by blast
  with zero have "fle (Fin 0) (rnd env x)" by simp
  then show ?thesis by (cases "rnd env x") simp_all
qed

lemma quotient_nonpos:
  assumes "a = Fin 0 \<or> b = Fin 0 \<or> (flt a (Fin 0) \<and> flt (Fin 0) b) \<or> (flt (Fin 0) a \<and> flt b (Fin 0))"
    and "fdiv a b = Fin x"
  shows "x \<le> 0"
proof (cases a)
  case (Fin a')
  show ?thesis
  proof (cases b)
    case (Fin b')
    with \<open>a = Fin a'\<close> assms show ?thesis
      by (auto simp: inf_of_sign_def divide_le_0_iff split: if_splits)
  qed (use \<open>a = Fin a'\<close> assms in auto)
next
  case PInf
  with assms show ?thesis by (cases b) (auto simp: inf_of_sign_def split: if_splits)
next
  case NInf
  with assms show ?thesis by (cases b) (auto simp: inf_of_sign_def split: if_splits)
next
  case NaN
  with assms show ?thesis by simp
qed

lemma rln_nonpos: "y \<le> 0 \<Longrightarrow> \<not> is_finite (rln env (Fin y))"
  by (cases "y < 0") (simp_all add: rln_def)

lemma rdiv_keeps_non_finite: "\<not> is_finite l \<Longrightarrow> \<not> is_finite (rdiv env l c)"
  by (cases l; cases c) (simp_all add: rdiv_def rounded_def inf_of_sign_def)

lemma shear_of_not_finite:
  assumes zero: "rnd env 0 = Fin 0"
    and mono: "\<forall>x y. x \<le> y \<longrightarrow> fle (rnd env x) (rnd env y)"
    and sign: "a = Fin 0 \<or> b = Fin 0 \<or> (flt a (Fin 0) \<and> flt (Fin 0) b) \<or>
      (flt (Fin 0) a \<and> flt b (Fin 0))"
  shows "\<not> is_finite (shear_of env a b)"
proof -
  have "\<not> is_finite (rln env (rdiv env a b))"
  proof (cases "fdiv a b")
    case (Fin x)
    from quotient_nonpos[OF sign Fin] have "x \<le> 0" .
    from rnd_nonpos[OF zero mono this] consider "rnd env x = NInf"
      | y where "y \<le> 0" "rnd env x = Fin y"
      by blast
    then show ?thesis
    proof cases
      case 1
      with Fin show ?thesis by (simp add: rdiv_def rounded_def rln_def)
    next
      case 2
      with Fin rln_nonpos[OF 2(1), of env] show ?thesis by (simp add: rdiv_def rounded_def)
    qed
  qed (simp_all add: rdiv_def rounded_def rln_def)
  then show ?thesis
    unfolding shear_of_def by (rule rdiv_keeps_non_finite)
qed

subsection \<open>The shear of the speeds 10 and 8 in arithmetic that is off by a millionth\<close>

lemma ln_close:
  fixes x y :: real
  assumes "1 \<le> x" "1 \<le> y"
  shows "\<bar>ln y - ln x\<bar> \<le> \<bar>y - x\<bar>"
proof -
  have le: "ln v - ln u \<le> v - u" if "1 \<le> u" "u \<le> v" for u v :: real
  proof -
    from that have "0 < u" "0 < v" by simp_all
    then have "ln v - ln u = ln (v / u)" by (simp add: ln_div)
    also have "\<dots> \<le> v / u - 1" using \<open>0 < u\<close> \<open>0 < v\<close> by (intro ln_le_minus_one) simp
    also have "\<dots> = (v - u) / u" using \<open>0 < u\<close> by (simp add: field_simps)
    also have "\<dots> \<le> (v - u) / 1"
      using that by (intro divide_left_mono) simp_all
    finally show ?thesis by simp
  qed
  have ge: "0 \<le> ln v - ln u" if "1 \<le> u" "u \<le> v" for u v :: real
    using that by simp
  show ?thesis
  proof (cases "x \<le> y")
    case True
    with le[OF assms(1) True] ge[OF assms(1) True] show ?thesis by simp
  next
    case False
    then have yx: "y \<le> x" by simp
    with le[OF assms(2) yx] ge[OF assms(2) yx] show ?thesis by simp
  qed
qed

lemma log_of_rounded:
  assumes close: "\<forall>x. 1 / 16 \<le> x \<and> x \<le> 16 \<longrightarrow> (\<exists>y. rnd env x = Fin y \<and> \<bar>y - x\<bar> \<le> 1 / 1000000)"
    and logs: "\<forall>x. 1 \<le> x \<and> x \<le> 16 \<longrightarrow> (\<exists>y. np_log env x = Fin y \<and> \<bar>y - ln x\<bar> \<le> 1 / 1000000)"
    and x: "5 / 4 \<le> x" "x \<le> 15"
  shows "\<exists>l. rln env (rounded env (Fin x)) = Fin l \<and> \<bar>l - ln x\<bar> \<le> 2 / 1000000"
proof -
  from x have "1 / 16 \<le> x \<and> x \<le> 16" by simp
  with close obtain y where y: "rnd env x = Fin y" and yc: "\<bar>y - x\<bar> \<le> 1 / 1000000"
    by blast
  from yc x have y1: "1 \<le> y" "y \<le> 16" by linarith+
  with logs obtain l where l: "np_log env y = Fin l" and lc: "\<bar>l - ln y\<bar> \<le> 1 / 1000000"
    by blast
  from x y1 have "\<bar>ln y - ln x\<bar> \<le> \<bar>y - x\<bar>" by (intro ln_close) simp_all
  with yc lc have "\<bar>l - ln x\<bar> \<le> 2 / 1000000" by linarith
  moreover from y y1 l have "rln env (rounded env (Fin x)) = Fin l"
    by (simp add: rounded_def rln_def)
  ultimately show ?thesis by blast
qed

lemma shear_10_8_rounded:
  assumes close: "\<forall>x. 1 / 16 \<le> x \<and> x \<le> 16 \<longrightarrow> (\<exists>y. rnd env x = Fin y \<and> \<bar>y - x\<bar> \<le> 1 / 1000000)"
    and logs: "\<forall>x. 1 \<le> x \<and> x \<le> 16 \<longrightarrow> (\<exists>y. np_log env x = Fin y \<and> \<bar>y - ln x\<bar> \<le> 1 / 1000000)"
  shows "\<exists>v. shear_of env (Fin 10) (Fin 8) = Fin v \<and> 2797 / 10000 \<le> v \<and> v \<le> 2808 / 10000"
proof -
  from log_of_rounded[OF close logs, of "5 / 4"] obtain l where
    l: "rln env (rounded env (Fin (5 / 4))) = Fin l" and lc: "\<bar>l - ln (5 / 4)\<bar> \<le> 2 / 1000000"
    by auto
  from log_of_rounded[OF close logs, of "51 / 23"] obtain c where
    c: "rln env (rounded env (Fin (51 / 23))) = Fin c" and cc: "\<bar>c - ln (51 / 23)\<bar> \<le> 2 / 1000000"
    by auto
  from lc ln_5_4_lower ln_5_4_upper have lb: "223098 / 1000000 \<le> l" "l \<le> 223202 / 1000000"
    by linarith+
  from cc ln_51_23_lower ln_51_23_upper have cb: "794998 / 1000000 \<le> c" "c \<le> 797502 / 1000000"
    by linarith+
  from cb have c0: "0 < c" by linarith
  have lower: "27974 / 100000 \<le> l / c"
  proof -
    have "27974 / 100000 * c \<le> l" using lb cb by linarith
    with c0 show ?thesis by (simp add: pos_le_divide_eq)
  qed
  have upper: "l / c \<le> 28077 / 100000"
  proof -
    have "l \<le> 28077 / 100000 * c" using lb cb by linarith
    with c0 show ?thesis by (simp add: pos_divide_le_eq)
  qed
  from lower upper have "1 / 16 \<le> l / c \<and> l / c \<le> 16" by linarith
  with close obtain v where v: "rnd env (l / c) = Fin v" and vc: "\<bar>v - l / c\<bar> \<le> 1 / 1000000"
    by blast
  have "shear_of env (Fin 10) (Fin 8) = Fin v"
    using l c c0 v by (simp add: shear_of_def rdiv_def rounded_def)
  moreover from lower upper vc have "2797 / 10000 \<le> v" "v \<le> 2808 / 10000"
    by linarith+
  ultimately show ?thesis by blast
qed

text \<open>
  Claim C6, as the code has it. The result has the two columns \<open>Timestamp\<close> and
  \<open>shear\<close> and one row per input row, holding the row's timestamp and
  \<open>ln (speed_102 / speed_46) / ln (102 / 46)\<close> as \<open>float64\<close> computes it: the
  rounded quotient of the speeds, its logarithm, and the rounded quotient by the
  logarithm of the rounded \<open>102 / 46\<close>. No exception is raised. In arithmetic that is
  within a millionth of the exact result between \<open>1 / 16\<close> and 16, as \<open>float64\<close> is,
  the value for the speeds 10 and 8 lies within 0.001 of 0.2802. In arithmetic that
  rounds zero to zero and never reverses an order, as \<open>float64\<close> does, the value is
  not finite when a speed is zero or when one speed is negative and the other positive.
\<close>

theorem wind_shear_value:
  assumes run: "wind_shear env lidar_data = (lidar_data', Inr out)"
    and i: "i < length (rows lidar_data)"
    and a: "map_of (rows lidar_data ! i) ''Spd 102m [m/s]'' = Some (Num a)"
    and b: "map_of (rows lidar_data ! i) ''Spd 46m [m/s]'' = Some (Num b)"
    and ts: "map_of (rows lidar_data ! i) ''Timestamp'' = Some ts"
  shows "map fst (columns out) = [''Timestamp'', ''shear''] \<and>
    length (rows out) = length (rows lidar_data) \<and>
    rows out ! i =
      [(''Timestamp'', ts),
       (''shear'', Num (rdiv env (rln env (rdiv env a b)) (rln env (rdiv env (Fin 102) (Fin 46)))))] \<and>
    ((\<forall>x. 1 / 16 \<le> x \<and> x \<le> 16 \<longrightarrow> (\<exists>y. rnd env x = Fin y \<and> \<bar>y - x\<bar> \<le> 1 / 1000000)) \<and>
     (\<forall>x. 1 \<le> x \<and> x \<le> 16 \<longrightarrow> (\<exists>y. np_log env x = Fin y \<and> \<bar>y - ln x\<bar> \<le> 1 / 1000000))
       \<longrightarrow> (\<exists>v. shear_of env (Fin 10) (Fin 8) = Fin v \<and> \<bar>v - 2802 / 10000\<bar> \<le> 1 / 1000)) \<and>
    (rnd env 0 = Fin 0 \<and> (\<forall>x y. x \<le> y \<longrightarrow> fle (rnd env x) (rnd env y))
       \<longrightarrow> (\<forall>x y. x = Fin 0 \<or> y = Fin 0 \<or> (flt x (Fin 0) \<and> flt (Fin 0) y) \<or>
                  (flt (Fin 0) x \<and> flt y (Fin 0))
             \<longrightarrow> \<not> is_finite (shear_of env x y)))"
proof -
  from run obtain d1 wsp_1 d0 wsp_0 shear where
    c1: "get_column lidar_data ''Spd 102m [m/s]'' = Inr (d1, wsp_1)" and
    c0: "get_column lidar_data ''Spd 46m [m/s]'' = Inr (d0, wsp_0)" and
    sh: "traverse (shear_cell env) (zip wsp_1 wsp_0) = Inr shear" and
    sel: "select_columns (setitem lidar_data ''shear'' Numeric shear) [''Timestamp'', ''shear'']
            = Inr out"
    by (auto simp: wind_shear_def Let_def split: sum.splits prod.splits if_splits)
  let ?n = "length (rows lidar_data)"
  from get_column_cells[OF c1] i a have l1: "length wsp_1 = ?n" and w1: "wsp_1 ! i = Num a"
    by auto
  from get_column_cells[OF c0] i b have l0: "length wsp_0 = ?n" and w0: "wsp_0 ! i = Num b"
    by auto
  from traverse_length[OF sh] l1 l0 have ls: "length shear = ?n" by simp
  from traverse_nth[OF sh, of i] i l1 l0 w1 w0 have si: "shear ! i = Num (shear_of env a b)"
    by (simp add: shear_cell_def)
  let ?t = "setitem lidar_data ''shear'' Numeric shear"
  have lt: "length (rows ?t) = ?n" by (simp add: setitem_length ls)
  have rt: "rows ?t ! i = AList.update ''shear'' (Num (shear_of env a b)) (rows lidar_data ! i)"
    using setitem_rows[OF ls i] si by simp
  from select_two_columns[OF sel] i lt obtain k1 k2 where
    "map fst (columns out) = [''Timestamp'', ''shear'']" and
    "length (rows out) = ?n" and
    "map_of (rows ?t ! i) ''Timestamp'' = Some k1" and
    "map_of (rows ?t ! i) ''shear'' = Some k2" and
    "rows out ! i = [(''Timestamp'', k1), (''shear'', k2)]"
    by force
  with rt ts have "map fst (columns out) = [''Timestamp'', ''shear'']"
    "length (rows out) = ?n"
    "rows out ! i =
       [(''Timestamp'', ts),
        (''shear'', Num (rdiv env (rln env (rdiv env a b)) (rln env (rdiv env (Fin 102) (Fin 46)))))]"
    by (simp_all add: update_conv' shear_of_def)
  moreover have "\<exists>v. shear_of env (Fin 10) (Fin 8) = Fin v \<and> \<bar>v - 2802 / 10000\<bar> \<le> 1 / 1000"
    if "\<forall>x. 1 / 16 \<le> x \<and> x \<le> 16 \<longrightarrow> (\<exists>y. rnd env x = Fin y \<and> \<bar>y - x\<bar> \<le> 1 / 1000000)"
      and "\<forall>x. 1 \<le> x \<and> x \<le> 16 \<longrightarrow> (\<exists>y. np_log env x = Fin y \<and> \<bar>y - ln x\<bar> \<le> 1 / 1000000)"
  proof -
    from shear_10_8_rounded[OF that] obtain v where
      "shear_of env (Fin 10) (Fin 8) = Fin v" "2797 / 10000 \<le> v" "v \<le> 2808 / 10000"
      by blast
    moreover from this have "\<bar>v - 2802 / 10000\<bar> \<le> 1 / 1000" by linarith
    ultimately show ?thesis by blast
  qed
  ultimately show ?thesis
    using shear_of_not_finite[of env] by blast
qed

theorem wind_shear_value_witness:
  "\<exists>out. snd (wind_shear mst_env lidar_example) = Inr out \<and>
     map fst (columns out) = [''Timestamp'', ''shear''] \<and>
     rows out ! 0 = [(''Timestamp'', Datetime 0), (''shear'', Num (shear_of mst_env (Fin 10) (Fin 8)))] \<and>
     (\<exists>v. shear_of mst_env (Fin 10) (Fin 8) = Fin v \<and> \<bar>v - 2802 / 10000\<bar> \<le> 1 / 1000) \<and>
     \<not> is_finite (shear_of mst_env (Fin 9) (Fin 0)) \<and>
     \<not> is_finite (shear_of mst_env (Fin (- 9)) (Fin 8))"
proof -
  obtain lidar' where run: "wind_shear mst_env lidar_example = (lidar', Inr lidar_sheared)"
    using lidar_example_sheared by (cases "wind_shear mst_env lidar_example") simp
  have i: "0 < length (rows lidar_example)"
    by (simp add: lidar_example_def)
  have close: "\<forall>x. 1 / 16 \<le> x \<and> x \<le> 16 \<longrightarrow> (\<exists>y. rnd mst_env x = Fin y \<and> \<bar>y - x\<bar> \<le> 1 / 1000000)"
    and logs: "\<forall>x. 1 \<le> x \<and> x \<le> 16 \<longrightarrow> (\<exists>y. np_log mst_env x = Fin y \<and> \<bar>y - ln x\<bar> \<le> 1 / 1000000)"
    and zero: "rnd mst_env 0 = Fin 0"
    and mono: "\<forall>x y. x \<le> y \<longrightarrow> fle (rnd mst_env x) (rnd mst_env y)"
    by (simp_all add: mst_env_def)
  note w = wind_shear_value [OF run i, of "Fin 10" "Fin 8" "Datetime 0"]
  have "map fst (columns lidar_sheared) = [''Timestamp'', ''shear'']"
    "rows lidar_sheared ! 0 =
       [(''Timestamp'', Datetime 0), (''shear'', Num (shear_of mst_env (Fin 10) (Fin 8)))]"
    using w by (simp_all add: lidar_example_def lidar_row_def shear_of_def)
  moreover have "\<exists>v. shear_of mst_env (Fin 10) (Fin 8) = Fin v \<and> \<bar>v - 2802 / 10000\<bar> \<le> 1 / 1000"
    using w close logs by (simp add: lidar_example_def lidar_row_def)
  moreover have "\<not> is_finite (shear_of mst_env (Fin 9) (Fin 0))"
    "\<not> is_finite (shear_of mst_env (Fin (- 9)) (Fin 8))"
    using w zero mono by (simp_all add: lidar_example_def lidar_row_def)
  ultimately show ?thesis
    using lidar_example_sheared
    by - (rule exI [of _ lidar_sheared], (rule conjI, assumption)+, assumption)
qed

text \<open>
  The claim as the specification words it fails twice on \<open>lidar_example\<close>: the shear
  of the speeds 10 and 8 is farther than 0.001 from 0.2786, and the row with two
  negative speeds gets the same finite shear.
\<close>

theorem wind_shear_counterexample:
  "snd (wind_shear mst_env lidar_example) = Inr lidar_sheared \<and>
   1 / 1000 < \<bar>ln (5 / 4) / ln (51 / 23 :: real) - 2786 / 10000\<bar>"
proof -
  have "1 / 1000 < \<bar>ln (5 / 4) / ln (51 / 23 :: real) - 2786 / 10000\<bar>"
    using shear_10_8_bounds by linarith
  with lidar_example_sheared show ?thesis by blast
qed

subsection \<open>Rescaling the training labels\<close>

lemma numeric_column_cells:
  assumes "numeric_column t k = Inr xs"
  shows "length xs = length (rows t) \<and>
    (\<forall>i < length (rows t). map_of (rows t ! i) k = Some (Num (xs ! i)))"
proof -
  from assms obtain d cs where c: "get_column t k = Inr (d, cs)"
    and n: "traverse num_of cs = Inr xs"
    by (auto simp: numeric_column_def split: sum.splits prod.splits if_splits)
  note g = get_column_cells[OF c]
  have "cs ! i = Num (xs ! i)" if "i < length cs" for i
    using traverse_nth[OF n that] by (cases "cs ! i") simp_all
  with g traverse_length[OF n] show ?thesis by simp
qed

lemma scale_where_rows:
  "length sel = length (rows t) \<Longrightarrow> i < length (rows t) \<Longrightarrow>
   rows (scale_where env sel k f t) ! i = scale_cell env k f (rows t ! i, sel ! i)"
  by (simp add: scale_where_def)

lemma scale_where_length:
  "length sel = length (rows t) \<Longrightarrow> length (rows (scale_where env sel k f t)) = length (rows t)"
  by (simp add: scale_where_def)

lemma scale_cell_value:
  "map_of r k = Some (Num v) \<Longrightarrow>
   scale_cell env k f (r, b) = AList.update k (Num (if b then rmul env v f else v)) r"
  by (simp add: scale_cell_def update_triv)

lemma fsqrt_cases: "fsqrt z = NaN \<or> fsqrt z = PInf \<or> (\<exists>b\<ge>0. fsqrt z = Fin b)"
  by (cases z) auto

lemma rsqrt_cases:
  assumes zero: "rnd env 0 = Fin 0"
    and mono: "\<forall>x y. x \<le> y \<longrightarrow> fle (rnd env x) (rnd env y)"
  shows "rsqrt env z = NaN \<or> rsqrt env z = PInf \<or> (\<exists>b\<ge>0. rsqrt env z = Fin b)"
proof -
  from fsqrt_cases[of z] consider "fsqrt z = NaN" | "fsqrt z = PInf" | b where "0 \<le> b" "fsqrt z = Fin b"
    by blast
  then show ?thesis
  proof cases
    case 1
    then show ?thesis by (simp add: rsqrt_def rounded_def)
  next
    case 2
    then show ?thesis by (simp add: rsqrt_def rounded_def)
  next
    case 3
    with rnd_nonneg[OF zero mono 3(1)] show ?thesis by (auto simp: rsqrt_def rounded_def)
  qed
qed

lemma fle_not_flt: "fle x y \<Longrightarrow> \<not> flt y x"
  by (cases x; cases y) simp_all

lemma flt_trans: "flt x y \<Longrightarrow> flt y z \<Longrightarrow> flt x z"
  by (cases x; cases y; cases z) simp_all

lemma flt_irrefl: "\<not> flt v v"
  by (cases v) simp_all

lemma thresholds_ordered:
  assumes zero: "rnd env 0 = Fin 0"
    and mono: "\<forall>x y. x \<le> y \<longrightarrow> fle (rnd env x) (rnd env y)"
  shows "\<not> flt (radd env m (rsqrt env z)) (rsub env m (rsqrt env z))"
proof -
  from rsqrt_cases[OF zero mono, of z] consider "rsqrt env z = NaN" | "rsqrt env z = PInf"
    | b where "0 \<le> b" "rsqrt env z = Fin b"
    by blast
  then show ?thesis
  proof cases
    case 1
    then show ?thesis by (cases m) (simp_all add: radd_def rsub_def fsub_def rounded_def)
  next
    case 2
    then show ?thesis by (cases m) (simp_all add: radd_def rsub_def fsub_def rounded_def)
  next
    case 3
    show ?thesis
    proof (cases m)
      case (Fin a)
      from 3(1) have "a - b \<le> a + b" by simp
      with mono have "fle (rnd env (a - b)) (rnd env (a + b))" by blast
      from fle_not_flt[OF this] Fin 3(2) show ?thesis
        by (simp add: radd_def rsub_def fsub_def rounded_def)
    qed (simp_all add: 3(2) radd_def rsub_def fsub_def rounded_def)
  qed
qed

lemma thresholds_disjoint:
  assumes zero: "rnd env 0 = Fin 0"
    and mono: "\<forall>x y. x \<le> y \<longrightarrow> fle (rnd env x) (rnd env y)"
  shows "\<not> (fgt v (radd env m (rsqrt env z)) \<and> flt v (rsub env m (rsqrt env z)))"
  using thresholds_ordered[OF zero mono, of m z] flt_trans[of "radd env m (rsqrt env z)" v]
  by (auto simp: fgt_def)

lemma rmul_one: "rnd env a = Fin a \<Longrightarrow> rmul env (Fin a) (Fin 1) = Fin a"
  by (simp add: rmul_def rounded_def)

lemma rmul_one_non_finite: "\<not> is_finite v \<Longrightarrow> rmul env v (Fin 1) = v"
  by (cases v) (simp_all add: rmul_def rounded_def inf_of_sign_def)

lemma fsum_Fin_aux: "foldl fadd (Fin a) (map Fin ys) = Fin (a + sum_list ys)"
  by (induction ys arbitrary: a) (simp_all add: add.assoc)

lemma fsum_Fin: "fsum (map Fin ys) = Fin (sum_list ys)"
  by (simp add: fsum_def fsum_Fin_aux)

lemma filter_not_nan_Fin: "filter not_nan (map Fin ys) = map Fin ys"
  by (induction ys) (simp_all add: not_nan_def)

lemma exact_mean_Fin:
  "ys \<noteq> [] \<Longrightarrow> exact_mean (map Fin ys) = Fin (sum_list ys / real (length ys))"
  by (simp add: exact_mean_def filter_not_nan_Fin fsum_Fin)

lemma scale_training_data_rows:
  assumes run: "scale_training_data env wind_data scale_up scale_mid = (wind_data', Inr out)"
    and xs: "numeric_column wind_data speed_col = Inr xs"
  shows "wind_data' = wind_data \<and> out = wind_data\<lparr>rows := rows out\<rparr> \<and>
    length (rows out) = length (rows wind_data) \<and>
    (\<forall>i < length (rows wind_data).
       rows out ! i =
         AList.update speed_col
           (Num (if flt (xs ! i) (rsub env (nanmean env xs) (nanstd env xs))
                 then rmul env (if fgt (xs ! i) (radd env (nanmean env xs) (nanstd env xs))
                                then rmul env (xs ! i) scale_up else xs ! i) scale_mid
                 else if fgt (xs ! i) (radd env (nanmean env xs) (nanstd env xs))
                      then rmul env (xs ! i) scale_up else xs ! i))
           (rows wind_data ! i))"
proof -
  let ?high = "radd env (nanmean env xs) (nanstd env xs)"
    and ?mid = "rsub env (nanmean env xs) (nanstd env xs)"
  let ?high_ix = "map (\<lambda>x. fgt x ?high) xs" and ?mid_ix = "map (\<lambda>x. flt x ?mid) xs"
  let ?t1 = "scale_where env ?high_ix speed_col scale_up wind_data"
  from run xs have wd: "wind_data' = wind_data"
    and out: "out = scale_where env ?mid_ix speed_col scale_mid ?t1"
    by (auto simp: scale_training_data_def Let_def)
  note c = numeric_column_cells[OF xs]
  from c have len: "length xs = length (rows wind_data)" by simp
  have l1: "length (rows ?t1) = length (rows wind_data)"
    by (simp add: scale_where_length len)
  have "rows out ! i =
         AList.update speed_col
           (Num (if flt (xs ! i) ?mid
                 then rmul env (if fgt (xs ! i) ?high then rmul env (xs ! i) scale_up else xs ! i)
                        scale_mid
                 else if fgt (xs ! i) ?high then rmul env (xs ! i) scale_up else xs ! i))
           (rows wind_data ! i)" if i: "i < length (rows wind_data)" for i
  proof -
    let ?r = "rows wind_data ! i" and ?v = "xs ! i"
    let ?v1 = "if fgt ?v ?high then rmul env ?v scale_up else ?v"
    from c i have v: "map_of ?r speed_col = Some (Num ?v)" by simp
    have r1: "rows ?t1 ! i = AList.update speed_col (Num ?v1) ?r"
      using i len by (simp add: scale_where_rows scale_cell_value[OF v])
    then have v1: "map_of (rows ?t1 ! i) speed_col = Some (Num ?v1)"
      by (simp add: update_conv')
    have "rows out ! i = scale_cell env speed_col scale_mid (rows ?t1 ! i, flt ?v ?mid)"
      using i len l1 by (simp add: out scale_where_rows)
    also have "\<dots> = AList.update speed_col
        (Num (if flt ?v ?mid then rmul env ?v1 scale_mid else ?v1)) (rows ?t1 ! i)"
      by (rule scale_cell_value[OF v1])
    finally show ?thesis
      by (simp add: r1)
  qed
  moreover have "out = wind_data\<lparr>rows := rows out\<rparr>"
    by (simp add: out scale_where_def)
  moreover have "length (rows out) = length (rows wind_data)"
    by (simp add: out scale_where_length len l1)
  ultimately show ?thesis using wd by blast
qed

lemmas moment_eval =
  nanmean_def nanstd_def nanvar_def rsqrt_def radd_def rsub_def rmul_def rounded_def
  mst_env_def exact_mean_def exact_var_def fsum_def not_nan_def fsub_def

lemma speeds_example_column:
  "numeric_column speeds_example speed_col = Inr ([Fin 2, Fin 3, Fin 4, Fin 4, Fin 4, Fin 4, Fin 4, Fin 4, Fin 5, Fin 6])"
  by (simp add: numeric_column_def get_column_def speeds_example_def obs_row_def getitem_def
      speed_col_def is_datetime64_any_dtype_def)

lemma speeds_example_moments:
  "nanmean mst_env ([Fin 2, Fin 3, Fin 4, Fin 4, Fin 4, Fin 4, Fin 4, Fin 4, Fin 5, Fin 6]) = Fin 4"
  "nanstd mst_env ([Fin 2, Fin 3, Fin 4, Fin 4, Fin 4, Fin 4, Fin 4, Fin 4, Fin 5, Fin 6]) = Fin 1"
  by (simp_all add: moment_eval)

lemma pair_example_column:
  "numeric_column pair_example speed_col = Inr ([Fin 1, Fin 3])"
  by (simp add: numeric_column_def get_column_def pair_example_def obs_row_def getitem_def
      speed_col_def is_datetime64_any_dtype_def)

lemma pair_example_moments:
  "nanmean mst_env ([Fin 1, Fin 3]) = Fin 2"
  "nanstd mst_env ([Fin 1, Fin 3]) = Fin 1"
  by (simp_all add: moment_eval)

lemma mst_env_rounding:
  "rnd mst_env 0 = Fin 0" "\<forall>x y. x \<le> y \<longrightarrow> fle (rnd mst_env x) (rnd mst_env y)"
  "\<forall>a. rnd mst_env a = Fin a"
  by (simp_all add: mst_env_def)

lemma scale_training_data_returns:
  "numeric_column t speed_col = Inr xs \<Longrightarrow> \<exists>out. scale_training_data env t u m = (t, Inr out)"
  by (simp add: scale_training_data_def Let_def)

text \<open>
  Claim C5. With \<open>xs\<close> the values of the column \<open>adjusted_wind_speed_59.1\<close>, the
  high threshold is the rounded sum and the mid threshold the rounded difference of the
  mean and the population standard deviation that the library computes for \<open>xs\<close>. In
  the returned table a value above the high threshold has been multiplied by
  \<open>scale_up\<close>, then a value below the mid threshold by \<open>scale_mid\<close>, and a value in
  neither selection is unchanged. In arithmetic that rounds zero to zero and never
  reverses an order, as \<open>float64\<close> does, no value is in both selections. With
  \<open>scale_mid = 1\<close> and no value above the high threshold the returned table equals the
  input, the values of the column being numbers of \<open>float64\<close>, which rounding leaves
  as they are.
\<close>

theorem scale_training_data_thresholds:
  assumes run: "scale_training_data env wind_data scale_up scale_mid = (wind_data', Inr out)"
    and xs: "numeric_column wind_data speed_col = Inr xs"
    and i: "i < length (rows wind_data)"
  shows "map_of (rows wind_data ! i) speed_col = Some (Num (xs ! i)) \<and>
    map_of (rows out ! i) speed_col =
      Some (Num (if flt (xs ! i) (rsub env (nanmean env xs) (nanstd env xs))
                 then rmul env (if fgt (xs ! i) (radd env (nanmean env xs) (nanstd env xs))
                                then rmul env (xs ! i) scale_up else xs ! i) scale_mid
                 else if fgt (xs ! i) (radd env (nanmean env xs) (nanstd env xs))
                      then rmul env (xs ! i) scale_up else xs ! i)) \<and>
    (rnd env 0 = Fin 0 \<and> (\<forall>x y. x \<le> y \<longrightarrow> fle (rnd env x) (rnd env y))
       \<longrightarrow> \<not> (fgt (xs ! i) (radd env (nanmean env xs) (nanstd env xs)) \<and>
              flt (xs ! i) (rsub env (nanmean env xs) (nanstd env xs))) \<and>
           map_of (rows out ! i) speed_col =
             Some (Num (if fgt (xs ! i) (radd env (nanmean env xs) (nanstd env xs))
                        then rmul env (xs ! i) scale_up
                        else if flt (xs ! i) (rsub env (nanmean env xs) (nanstd env xs))
                             then rmul env (xs ! i) scale_mid
                             else xs ! i))) \<and>
    (scale_mid = Fin 1 \<and> (\<forall>x \<in> set xs. \<not> fgt x (radd env (nanmean env xs) (nanstd env xs))) \<and>
     (\<forall>a. Fin a \<in> set xs \<longrightarrow> rnd env a = Fin a)
       \<longrightarrow> out = wind_data) \<and>
    nanstd env xs = rsqrt env (nanvar env xs) \<and>
    nanmean env xs = (if filter not_nan xs = [] then NaN else series_mean env xs) \<and>
    nanvar env xs = (if filter not_nan xs = [] then NaN else series_var env xs)"
proof -
  let ?high = "radd env (nanmean env xs) (nanstd env xs)"
    and ?mid = "rsub env (nanmean env xs) (nanstd env xs)"
  note r = scale_training_data_rows[OF run xs]
  note c = numeric_column_cells[OF xs]
  from c i have before: "map_of (rows wind_data ! i) speed_col = Some (Num (xs ! i))" by simp
  from r i have after: "map_of (rows out ! i) speed_col =
      Some (Num (if flt (xs ! i) ?mid
                 then rmul env (if fgt (xs ! i) ?high then rmul env (xs ! i) scale_up else xs ! i)
                        scale_mid
                 else if fgt (xs ! i) ?high then rmul env (xs ! i) scale_up else xs ! i))"
    by (simp add: update_conv')
  have three: "\<not> (fgt (xs ! i) ?high \<and> flt (xs ! i) ?mid) \<and>
      map_of (rows out ! i) speed_col =
        Some (Num (if fgt (xs ! i) ?high then rmul env (xs ! i) scale_up
                   else if flt (xs ! i) ?mid then rmul env (xs ! i) scale_mid
                   else xs ! i))"
    if "rnd env 0 = Fin 0" and "\<forall>x y. x \<le> y \<longrightarrow> fle (rnd env x) (rnd env y)"
  proof -
    have d: "\<not> (fgt (xs ! i) ?high \<and> flt (xs ! i) ?mid)"
      using thresholds_disjoint[OF that, of "xs ! i" "nanmean env xs" "nanvar env xs"]
      by (simp add: nanstd_def)
    with after show ?thesis by auto
  qed
  have same: "out = wind_data"
    if m: "scale_mid = Fin 1" and h: "\<forall>x \<in> set xs. \<not> fgt x ?high"
      and f: "\<forall>a. Fin a \<in> set xs \<longrightarrow> rnd env a = Fin a"
  proof -
    have "rows out ! j = rows wind_data ! j" if j: "j < length (rows wind_data)" for j
    proof -
      from c j have mem: "xs ! j \<in> set xs"
        and v: "map_of (rows wind_data ! j) speed_col = Some (Num (xs ! j))"
        by simp_all
      have one: "rmul env (xs ! j) (Fin 1) = xs ! j"
      proof (cases "xs ! j")
        case (Fin a)
        with mem f have "rnd env a = Fin a" by simp
        with Fin show ?thesis by (simp add: rmul_one)
      qed (simp_all add: rmul_one_non_finite)
      from r j have "rows out ! j =
         AList.update speed_col
           (Num (if flt (xs ! j) ?mid
                 then rmul env (if fgt (xs ! j) ?high then rmul env (xs ! j) scale_up else xs ! j)
                        scale_mid
                 else if fgt (xs ! j) ?high then rmul env (xs ! j) scale_up else xs ! j))
           (rows wind_data ! j)"
        by blast
      with mem h one v show ?thesis
        by (simp add: m update_triv)
    qed
    with r have "rows out = rows wind_data"
      by (intro nth_equalityI) simp_all
    with r show ?thesis by (metis table.surjective table.update_convs(3))
  qed
  have defs: "nanstd env xs = rsqrt env (nanvar env xs)"
    "nanmean env xs = (if filter not_nan xs = [] then NaN else series_mean env xs)"
    "nanvar env xs = (if filter not_nan xs = [] then NaN else series_var env xs)"
    by (simp_all add: nanstd_def nanmean_def nanvar_def Let_def)
  from before after three same defs show ?thesis by blast
qed

theorem scale_training_data_thresholds_witness:
  "\<exists>out. scale_training_data mst_env speeds_example (Fin 2) (Fin (1 / 2)) = (speeds_example, Inr out) \<and>
     map_of (rows out ! 0) speed_col = Some (Num (Fin 1)) \<and>
     map_of (rows out ! 2) speed_col = Some (Num (Fin 4)) \<and>
     map_of (rows out ! 9) speed_col = Some (Num (Fin 12)) \<and>
     snd (scale_training_data mst_env pair_example (Fin 2) scale_mid_default) = Inr pair_example"
proof -
  from scale_training_data_returns[OF speeds_example_column] obtain out where
    run: "scale_training_data mst_env speeds_example (Fin 2) (Fin (1 / 2)) = (speeds_example, Inr out)"
    by blast
  have n: "0 < length (rows speeds_example)" "2 < length (rows speeds_example)"
    "9 < length (rows speeds_example)"
    by (simp_all add: speeds_example_def)
  have a: "map_of (rows out ! 0) speed_col = Some (Num (Fin 1))"
    using scale_training_data_thresholds [OF run speeds_example_column n(1)]
    by (simp add: speeds_example_moments mst_env_rounding fgt_def fsub_def radd_def rsub_def
        rmul_def rounded_def)
  have b: "map_of (rows out ! 2) speed_col = Some (Num (Fin 4))"
    using scale_training_data_thresholds [OF run speeds_example_column n(2)]
    by (simp add: speeds_example_moments mst_env_rounding fgt_def fsub_def radd_def rsub_def
        rmul_def rounded_def)
  have c: "map_of (rows out ! 9) speed_col = Some (Num (Fin 12))"
    using scale_training_data_thresholds [OF run speeds_example_column n(3)]
    by (simp add: speeds_example_moments mst_env_rounding fgt_def fsub_def radd_def rsub_def
        rmul_def rounded_def)
  from scale_training_data_returns[OF pair_example_column] obtain out' where
    run': "scale_training_data mst_env pair_example (Fin 2) scale_mid_default = (pair_example, Inr out')"
    by blast
  have "0 < length (rows pair_example)" by (simp add: pair_example_def)
  from scale_training_data_thresholds [OF run' pair_example_column this]
  have "out' = pair_example"
    by (simp add: pair_example_moments mst_env_rounding fgt_def scale_mid_default_def radd_def
        rounded_def)
  with run' have d: "snd (scale_training_data mst_env pair_example (Fin 2) scale_mid_default) = Inr pair_example"
    by simp
  from run a b c d show ?thesis by blast
qed

text \<open>
  Claim C10. \<open>scale_training_data\<close> leaves its argument as it was, whatever it returns
  or raises. The returned table has the columns, the index and the number of rows of
  the input; each row keeps its labels in order and every cell outside the column
  \<open>adjusted_wind_speed_59.1\<close>. A row whose value equals one of the two thresholds as
  the code computes them, the rounded sum and the rounded difference of mean and
  standard deviation, is unchanged, in arithmetic that rounds zero to zero and never
  reverses an order, as \<open>float64\<close> does.
\<close>

theorem scale_training_data_frame:
  assumes run: "scale_training_data env wind_data scale_up scale_mid = (wind_data', Inr out)"
    and xs: "numeric_column wind_data speed_col = Inr xs"
  shows "wind_data' = wind_data \<and>
    (\<forall>u m. fst (scale_training_data env wind_data u m) = wind_data) \<and>
    columns out = columns wind_data \<and> index out = index wind_data \<and>
    length (rows out) = length (rows wind_data) \<and>
    (\<forall>i < length (rows wind_data).
       map fst (rows out ! i) = map fst (rows wind_data ! i) \<and>
       (\<forall>k. k \<noteq> speed_col \<longrightarrow> map_of (rows out ! i) k = map_of (rows wind_data ! i) k) \<and>
       (rnd env 0 = Fin 0 \<and> (\<forall>x y. x \<le> y \<longrightarrow> fle (rnd env x) (rnd env y)) \<and>
        (xs ! i = radd env (nanmean env xs) (nanstd env xs) \<or>
         xs ! i = rsub env (nanmean env xs) (nanstd env xs))
          \<longrightarrow> rows out ! i = rows wind_data ! i))"
proof -
  note r = scale_training_data_rows[OF run xs]
  note c = numeric_column_cells[OF xs]
  let ?high = "radd env (nanmean env xs) (nanstd env xs)"
    and ?mid = "rsub env (nanmean env xs) (nanstd env xs)"
  have row: "map fst (rows out ! i) = map fst (rows wind_data ! i) \<and>
       (\<forall>k. k \<noteq> speed_col \<longrightarrow> map_of (rows out ! i) k = map_of (rows wind_data ! i) k) \<and>
       (rnd env 0 = Fin 0 \<and> (\<forall>x y. x \<le> y \<longrightarrow> fle (rnd env x) (rnd env y)) \<and>
        (xs ! i = ?high \<or> xs ! i = ?mid) \<longrightarrow> rows out ! i = rows wind_data ! i)"
    if i: "i < length (rows wind_data)" for i
  proof -
    from c i have v: "map_of (rows wind_data ! i) speed_col = Some (Num (xs ! i))" by simp
    then have "speed_col \<in> fst ` set (rows wind_data ! i)"
      by (force dest: map_of_SomeD)
    with r i have "map fst (rows out ! i) = map fst (rows wind_data ! i)"
      by (simp add: update_keys)
    moreover from r i have "\<forall>k. k \<noteq> speed_col \<longrightarrow>
        map_of (rows out ! i) k = map_of (rows wind_data ! i) k"
      by (simp add: update_conv')
    moreover have "rows out ! i = rows wind_data ! i"
      if zero: "rnd env 0 = Fin 0" and mono: "\<forall>x y. x \<le> y \<longrightarrow> fle (rnd env x) (rnd env y)"
        and on: "xs ! i = ?high \<or> xs ! i = ?mid"
    proof -
      have ord: "\<not> flt ?high ?mid"
        using thresholds_ordered[OF zero mono, of "nanmean env xs" "nanvar env xs"]
        by (simp add: nanstd_def)
      from on ord have "\<not> fgt (xs ! i) ?high" "\<not> flt (xs ! i) ?mid"
        by (auto simp: fgt_def flt_irrefl)
      with r i v show ?thesis by (simp add: update_triv)
    qed
    ultimately show ?thesis by blast
  qed
  have "columns out = columns wind_data" "index out = index wind_data"
    using r by (metis table.select_convs(2) table.surjective table.update_convs(3),
        metis table.select_convs(1) table.surjective table.update_convs(3))
  moreover have "\<forall>u m. fst (scale_training_data env wind_data u m) = wind_data"
    by (simp add: scale_training_data_def)
  ultimately show ?thesis using r row by blast
qed

theorem scale_training_data_frame_witness:
  "\<exists>out. scale_training_data mst_env pair_example (Fin 2) (Fin (1 / 2)) = (pair_example, Inr out) \<and>
     columns out = columns pair_example \<and>
     rows out ! 0 = obs_row 0 1 \<and> rows out ! 1 = obs_row 3600000000000 3"
proof -
  from scale_training_data_returns[OF pair_example_column] obtain out where
    run: "scale_training_data mst_env pair_example (Fin 2) (Fin (1 / 2)) = (pair_example, Inr out)"
    by blast
  note f = scale_training_data_frame [OF run pair_example_column]
  from f have "columns out = columns pair_example" by blast
  moreover from f have "rows out ! 0 = obs_row 0 1" "rows out ! 1 = obs_row 3600000000000 3"
    by (simp_all add: pair_example_moments mst_env_rounding fsub_def radd_def rsub_def rounded_def)
       (simp_all add: pair_example_def)
  ultimately show ?thesis using run by blast
qed

subsection \<open>The date-range filter\<close>

lemma select_mask_filter:
  "traverse g rs = Inr cs \<Longrightarrow> traverse f1 cs = Inr m1 \<Longrightarrow> traverse f2 cs = Inr m2 \<Longrightarrow>
   select_mask (map (\<lambda>(a, b). a \<and> b) (zip m1 m2)) rs =
     filter (\<lambda>r. \<exists>c. g r = Inr c \<and> f1 c = Inr True \<and> f2 c = Inr True) rs"
proof (induction rs arbitrary: cs m1 m2)
  case Nil
  then show ?case by (simp add: select_mask_def)
next
  case (Cons r rs)
  from Cons.prems(1) obtain c cs' where c: "g r = Inr c" and cs': "traverse g rs = Inr cs'"
    and cs: "cs = c # cs'"
    by (auto split: sum.splits)
  from Cons.prems(2) cs obtain b1 m1' where b1: "f1 c = Inr b1" and m1': "traverse f1 cs' = Inr m1'"
    and m1: "m1 = b1 # m1'"
    by (auto split: sum.splits)
  from Cons.prems(3) cs obtain b2 m2' where b2: "f2 c = Inr b2" and m2': "traverse f2 cs' = Inr m2'"
    and m2: "m2 = b2 # m2'"
    by (auto split: sum.splits)
  from Cons.IH[OF cs' m1' m2'] show ?case
    by (auto simp: select_mask_def m1 m2 c b1 b2)
qed

lemma getitem_Inr: "getitem r k = Inr c \<longleftrightarrow> map_of r k = Some c"
  by (simp add: getitem_def split: option.splits)

text \<open>
  Claim C9. Whenever \<open>concurrent_data\<close> returns a table, its rows are exactly the rows
  of the input whose \<open>Timestamp\<close> lies between the two boundaries, both boundaries
  included, in their original order. The boundaries are whatever pandas makes of the
  two arguments for the dtype of the column.
\<close>

theorem concurrent_data_inclusive:
  assumes run: "concurrent_data env wind_data start_date end_date = (wind_data', Inr out)"
    and d: "map_of (columns wind_data) ''Timestamp'' = Some d"
    and lo: "comparable_bound env d start_date = Inr lo"
    and hi: "comparable_bound env d end_date = Inr hi"
  shows "rows out =
        filter (\<lambda>r. \<exists>c. map_of r ''Timestamp'' = Some c \<and>
                         cell_le lo c = Inr True \<and> cell_le c hi = Inr True)
          (rows wind_data)"
proof -
  from run obtain d' cs lower upper where
    col: "get_column wind_data ''Timestamp'' = Inr (d', cs)" and
    lower: "ge_column env (d', cs) start_date = Inr lower" and
    upper: "le_column env (d', cs) end_date = Inr upper" and
    out: "out = loc_mask (map (\<lambda>(a, b). a \<and> b) (zip lower upper)) wind_data"
    by (auto simp: concurrent_data_def split: sum.splits)
  from col d have d': "d' = d"
    and cs: "traverse (\<lambda>r. getitem r ''Timestamp'') (rows wind_data) = Inr cs"
    by (auto simp: get_column_def split: option.splits sum.splits)
  from lower lo have m1: "traverse (\<lambda>c. cell_le lo c) cs = Inr lower"
    by (simp add: ge_column_def d')
  from upper hi have m2: "traverse (\<lambda>c. cell_le c hi) cs = Inr upper"
    by (simp add: le_column_def d')
  have "rows out = select_mask (map (\<lambda>(a, b). a \<and> b) (zip lower upper)) (rows wind_data)"
    by (simp add: out loc_mask_def)
  also have "\<dots> = filter (\<lambda>r. \<exists>c. getitem r ''Timestamp'' = Inr c \<and>
                         cell_le lo c = Inr True \<and> cell_le c hi = Inr True) (rows wind_data)"
    by (rule select_mask_filter[OF cs m1 m2])
  finally show ?thesis by (simp add: getitem_Inr)
qed

lemma obs_example_filtered:
  "\<exists>out. concurrent_data mst_env obs_example (Datetime 3600000000000) (Datetime 7200000000000)
      = (obs_example, Inr out)"
  by (simp add: concurrent_data_def get_column_def obs_example_def obs_row_def getitem_def
      ge_column_def le_column_def comparable_bound_def)

theorem concurrent_data_inclusive_witness:
  "\<exists>out. concurrent_data mst_env obs_example (Datetime 3600000000000) (Datetime 7200000000000)
      = (obs_example, Inr out) \<and>
     rows out = [obs_row 3600000000000 3, obs_row 7200000000000 5]"
proof -
  from obs_example_filtered obtain out where
    run: "concurrent_data mst_env obs_example (Datetime 3600000000000) (Datetime 7200000000000)
      = (obs_example, Inr out)"
    by blast
  have "rows out = [obs_row 3600000000000 3, obs_row 7200000000000 5]"
    using concurrent_data_inclusive [OF run, of Datetime64 "Datetime 3600000000000"
        "Datetime 7200000000000"]
    by (simp add: obs_example_def obs_row_def comparable_bound_def)
  with run show ?thesis by blast
qed

subsection \<open>Resampling\<close>

lemma assign_from_rows:
  assumes "assign_from t target d' source f = Inr t'"
  shows "\<exists>d. map_of (columns t) source = Some d \<and>
    columns t' = AList.update target d' (columns t) \<and> index t' = index t \<and>
    length (rows t') = length (rows t) \<and>
    (\<forall>i < length (rows t). \<exists>c c'. map_of (rows t ! i) source = Some c \<and> f d c = Inr c' \<and>
        rows t' ! i = AList.update target c' (rows t ! i))"
proof -
  from assms obtain d cs cs' where g: "get_column t source = Inr (d, cs)"
    and tr: "traverse (f d) cs = Inr cs'" and t': "t' = setitem t target d' cs'"
    by (auto simp: assign_from_def split: sum.splits prod.splits)
  note c = get_column_cells[OF g]
  from c traverse_length[OF tr] have len: "length cs' = length (rows t)" by simp
  have "\<exists>c c'. map_of (rows t ! i) source = Some c \<and> f d c = Inr c' \<and>
        rows t' ! i = AList.update target c' (rows t ! i)" if i: "i < length (rows t)" for i
    using c i traverse_nth[OF tr, of i] setitem_rows[OF len i, of target d']
    by (simp add: t')
  moreover have "columns t' = AList.update target d' (columns t)" "index t' = index t"
    by (simp_all add: t' setitem_def)
  ultimately show ?thesis
    using c setitem_length[OF len, of target d'] by (auto simp: t')
qed

lemma set_index_result:
  assumes "set_index t k = Inr t'"
  shows "\<exists>d cs. get_column t k = Inr (d, cs) \<and> index t' = Some (k, d, cs) \<and>
    columns t' = AList.delete k (columns t) \<and> rows t' = map (AList.delete k) (rows t)"
  using assms by (auto simp: set_index_def split: sum.splits prod.splits)










lemma zip_map_same: "zip (map f xs) (map g xs) = map (\<lambda>x. (f x, g x)) xs"
  by (induction xs) simp_all


lemma resample_mean_steps:
  assumes res: "resample_mean env w t = Inr resampled"
    and ix: "index t = Some (k, d, ls)"
  shows "\<exists>ts cols. datetimes ls = Inr ts \<and>
    traverse (column_values t) (columns t) = Inr cols \<and>
    (case present ts of
        [] \<Rightarrow> if ts = [] then
                Inr \<lparr>index = Some (k, d, []),
                     columns = map (\<lambda>(c, dc). (c, mean_dtype dc)) (columns t), rows = []\<rparr>
              else Inl ValueError
      | t0 # rest \<Rightarrow>
          (case normalize env d (fold min rest t0) of
             Inl e \<Rightarrow> Inl e
           | Inr origin \<Rightarrow>
               (let labels = bin_labels origin w (fold min rest t0) (fold max rest t0)
                in Inr \<lparr>index = Some (k, d, map Datetime labels),
                        columns = map (\<lambda>(c, dc). (c, mean_dtype dc)) (columns t),
                        rows = map (bin_row env w ts cols) labels\<rparr>))) = Inr resampled"
  using assms by (auto simp: resample_mean_def split: if_splits sum.splits)


lemma resample_mean_shape:
  assumes "resample_mean env w t = Inr resampled"
  shows "\<exists>k d ls labels. index t = Some (k, d, ls) \<and>
    index resampled = Some (k, d, map Datetime labels) \<and>
    length (rows resampled) = length labels \<and>
    columns resampled = map (\<lambda>(c, dc). (c, mean_dtype dc)) (columns t)"
proof -
  from assms obtain k d ls where ix: "index t = Some (k, d, ls)"
    by (auto simp: resample_mean_def split: option.splits)
  let ?cols = "map (\<lambda>(c, dc). (c, mean_dtype dc)) (columns t)"
  from resample_mean_steps[OF assms ix] obtain ts cols where
    step: "(case present ts of
        [] \<Rightarrow> if ts = [] then Inr \<lparr>index = Some (k, d, []), columns = ?cols, rows = []\<rparr>
              else Inl ValueError
      | t0 # rest \<Rightarrow>
          (case normalize env d (fold min rest t0) of
             Inl e \<Rightarrow> Inl e
           | Inr origin \<Rightarrow>
               (let labels = bin_labels origin w (fold min rest t0) (fold max rest t0)
                in Inr \<lparr>index = Some (k, d, map Datetime labels),
                        columns = ?cols,
                        rows = map (bin_row env w ts cols) labels\<rparr>))) = Inr resampled"
    by blast
  show ?thesis
  proof (cases "present ts")
    case Nil
    with step have "resampled = \<lparr>index = Some (k, d, map Datetime []),
        columns = ?cols, rows = []\<rparr>"
      by (simp split: if_splits)
    with ix show ?thesis by (intro exI[of _ k] exI[of _ d] exI[of _ ls] exI[of _ "[]"]) simp
  next
    case (Cons t0 rest)
    with step obtain origin where
      "resampled = \<lparr>index = Some (k, d, map Datetime
            (bin_labels origin w (fold min rest t0) (fold max rest t0))),
         columns = ?cols,
         rows = map (bin_row env w ts cols) (bin_labels origin w (fold min rest t0) (fold max rest t0))\<rparr>"
      by (auto simp: Let_def split: sum.splits)
    with ix show ?thesis
      by (intro exI[of _ k] exI[of _ d] exI[of _ ls]
          exI[of _ "bin_labels origin w (fold min rest t0) (fold max rest t0)"]) simp
  qed
qed

lemma reset_index_rows:
  assumes "reset_index t = Inr out"
    and "index t = Some (k, d, ls)" and "length ls = length (rows t)"
  shows "index out = None \<and> columns out = (k, d) # columns t \<and>
    length (rows out) = length (rows t) \<and>
    (\<forall>j < length (rows t). rows out ! j = (k, ls ! j) # rows t ! j)"
  using assms by (auto simp: reset_index_def split: if_splits)

lemma resample_table_steps:
  assumes "resample_table env w wind_data = (wd', Inr out)"
  shows "\<exists>d cs resampled. map_of (columns wind_data) ''Timestamp'' = Some d \<and>
    is_datetime64_any_dtype d \<and> get_column wind_data ''Timestamp'' = Inr (d, cs) \<and>
    wd' = \<lparr>index = Some (''Timestamp'', d, cs),
            columns = AList.delete ''Timestamp'' (columns wind_data),
            rows = map (AList.delete ''Timestamp'') (rows wind_data)\<rparr> \<and>
    resample_mean env w wd' = Inr resampled \<and> reset_index resampled = Inr out"
  using assms
  by (auto simp: resample_table_def assert_datetime_def set_index_def
      split: option.splits sum.splits if_splits prod.splits dest: get_column_cells)

lemma resample_table_timestamps:
  assumes "resample_table env w wind_data = (wd', Inr out)"
  shows "\<exists>d. map_of (columns wind_data) ''Timestamp'' = Some d \<and>
     columns out =
       (''Timestamp'', d)
         # map (\<lambda>(c, dc). (c, mean_dtype dc)) (AList.delete ''Timestamp'' (columns wind_data)) \<and>
     (\<forall>j < length (rows out). \<exists>b r. rows out ! j = (''Timestamp'', Datetime b) # r)"
proof -
  from resample_table_steps[OF assms] obtain d cs resampled where
    d: "map_of (columns wind_data) ''Timestamp'' = Some d" and
    wd': "wd' = \<lparr>index = Some (''Timestamp'', d, cs),
            columns = AList.delete ''Timestamp'' (columns wind_data),
            rows = map (AList.delete ''Timestamp'') (rows wind_data)\<rparr>" and
    res: "resample_mean env w wd' = Inr resampled" and rst: "reset_index resampled = Inr out"
    by blast
  from resample_mean_shape[OF res] wd' obtain labels where
    ix: "index resampled = Some (''Timestamp'', d, map Datetime labels)" and
    len: "length (rows resampled) = length labels" and
    cols: "columns resampled =
      map (\<lambda>(c, dc). (c, mean_dtype dc)) (AList.delete ''Timestamp'' (columns wind_data))"
    by auto
  from reset_index_rows[OF rst ix] len
  have "columns out = (''Timestamp'', d) # columns resampled"
    "length (rows out) = length labels"
    "\<forall>j < length labels. rows out ! j = (''Timestamp'', Datetime (labels ! j)) # rows resampled ! j"
    by simp_all
  with d cols show ?thesis by auto
qed


lemma hourly_format_steps:
  assumes "hourly_format env wind_data = (wd', Inr out)"
  shows "\<exists>hourly h1 h2. resample_table env ns_per_hour wind_data = (wd', Inr hourly) \<and>
    assign_from hourly ''Timestamp'' (Datetime64TZ ''UTC'') ''Timestamp''
      (\<lambda>d. to_datetime_utc env) = Inr h1 \<and>
    assign_from h1 ''hour'' Numeric ''Timestamp'' (dt_hour_of_year env) = Inr h2 \<and>
    assign_from h2 ''Timestamp'' Datetime64 ''Timestamp'' (dt_tz_localize_None env) = Inr out"
  using assms by (auto simp: hourly_format_def split: prod.splits sum.splits)

lemma wall_clock_UTC: "wall_clock env (Datetime64TZ ''UTC'') t = t"
  by (simp add: wall_clock_def zone_offset_def)

lemma hourly_format_rows:
  assumes "hourly_format env wind_data = (wd', Inr out)"
  shows "\<exists>hourly. resample_table env ns_per_hour wind_data = (wd', Inr hourly) \<and>
    length (rows out) = length (rows hourly) \<and>
    map_of (columns out) ''Timestamp'' = Some Datetime64 \<and>
    map_of (columns out) ''hour'' = Some Numeric \<and>
    (\<forall>j < length (rows hourly). \<exists>b r.
        rows hourly ! j = (''Timestamp'', Datetime b) # r \<and>
        rows out ! j =
          (''Timestamp'', Datetime b) # AList.update ''hour'' (Num (Fin (of_int (hour_of_year b)))) r)"
proof -
  from hourly_format_steps[OF assms] obtain hourly h1 h2 where
    rt: "resample_table env ns_per_hour wind_data = (wd', Inr hourly)" and
    a1: "assign_from hourly ''Timestamp'' (Datetime64TZ ''UTC'') ''Timestamp''
      (\<lambda>d. to_datetime_utc env) = Inr h1" and
    a2: "assign_from h1 ''hour'' Numeric ''Timestamp'' (dt_hour_of_year env) = Inr h2" and
    a3: "assign_from h2 ''Timestamp'' Datetime64 ''Timestamp'' (dt_tz_localize_None env) = Inr out"
    by blast
  from resample_table_timestamps[OF rt] have
    ts: "\<forall>j < length (rows hourly). \<exists>b r. rows hourly ! j = (''Timestamp'', Datetime b) # r"
    by blast
  from assign_from_rows[OF a1] obtain d1 where
    c1: "columns h1 = AList.update ''Timestamp'' (Datetime64TZ ''UTC'') (columns hourly)" and
    l1: "length (rows h1) = length (rows hourly)" and
    r1: "\<forall>i < length (rows hourly). \<exists>c c'. map_of (rows hourly ! i) ''Timestamp'' = Some c \<and>
        to_datetime_utc env c = Inr c' \<and>
        rows h1 ! i = AList.update ''Timestamp'' c' (rows hourly ! i)"
    by blast
  from assign_from_rows[OF a2] c1 have
    c2: "columns h2 = AList.update ''hour'' Numeric (columns h1)" and
    l2: "length (rows h2) = length (rows h1)" and
    r2: "\<forall>i < length (rows h1). \<exists>c c'. map_of (rows h1 ! i) ''Timestamp'' = Some c \<and>
        dt_hour_of_year env (Datetime64TZ ''UTC'') c = Inr c' \<and>
        rows h2 ! i = AList.update ''hour'' c' (rows h1 ! i)"
    by (auto simp: update_conv')
  from assign_from_rows[OF a3] c2 c1 have
    c3: "columns out = AList.update ''Timestamp'' Datetime64 (columns h2)" and
    l3: "length (rows out) = length (rows h2)" and
    r3: "\<forall>i < length (rows h2). \<exists>c c'. map_of (rows h2 ! i) ''Timestamp'' = Some c \<and>
        dt_tz_localize_None env (Datetime64TZ ''UTC'') c = Inr c' \<and>
        rows out ! i = AList.update ''Timestamp'' c' (rows h2 ! i)"
    by (auto simp: update_conv')
  have row: "\<exists>b r. rows hourly ! j = (''Timestamp'', Datetime b) # r \<and>
        rows out ! j =
          (''Timestamp'', Datetime b) # AList.update ''hour'' (Num (Fin (of_int (hour_of_year b)))) r"
    if j: "j < length (rows hourly)" for j
  proof -
    from ts j obtain b r where h: "rows hourly ! j = (''Timestamp'', Datetime b) # r" by blast
    from r1[rule_format, OF j] h have e1: "rows h1 ! j = (''Timestamp'', Datetime b) # r"
      by (auto simp: to_datetime_utc_def)
    from j l1 have j1: "j < length (rows h1)" by simp
    from j1 l2 have j2: "j < length (rows h2)" by simp
    from r2[rule_format, OF j1] e1 have e2: "rows h2 ! j =
        (''Timestamp'', Datetime b) # AList.update ''hour'' (Num (Fin (of_int (hour_of_year b)))) r"
      by (auto simp: dt_hour_of_year_def wall_clock_UTC)
    from r3[rule_format, OF j2] e2 have "rows out ! j =
        (''Timestamp'', Datetime b) # AList.update ''hour'' (Num (Fin (of_int (hour_of_year b)))) r"
      by (auto simp: dt_tz_localize_None_def wall_clock_UTC)
    with h show ?thesis by blast
  qed
  have "map_of (columns out) ''Timestamp'' = Some Datetime64"
    "map_of (columns out) ''hour'' = Some Numeric"
    by (simp_all add: c3 c2 update_conv')
  with rt l1 l2 l3 row show ?thesis by auto
qed

lemma hour_of_year_examples:
  "hour_of_year (timestamp 2021 1 1 0 0 0) = 0"
  "hour_of_year (timestamp 2021 1 2 3 0 0) = 27"
  "hour_of_year (timestamp 2021 12 31 23 0 0) = 8759"
  by (simp_all add: hour_of_year_def dayofyear_def hour_def days_to_yearsdays_def timestamp_def
      days_from_civil_def ns_per_day_def ns_per_hour_def Let_def)

text \<open>
  Claim C3. In the table \<open>hourly_format\<close> returns, the \<open>Timestamp\<close> column is
  timezone-naive again, every row keeps the number of its bucket (the bucket start read
  as UTC), and its \<open>hour\<close> is \<open>(day_of_year - 1) * 24 + hour_of_day\<close> of that number,
  with the day of the year counted from 1. The first hour of 2021 gets 0, 03:00 of
  2 January gets 27 and 23:00 of 31 December gets 8759.
\<close>

theorem hourly_format_hour_of_year:
  assumes run: "hourly_format env wind_data = (wind_data', Inr out)"
    and j: "j < length (rows out)"
  shows "map_of (columns out) ''Timestamp'' = Some Datetime64 \<and>
    (\<exists>hourly b. resample_table env ns_per_hour wind_data = (wind_data', Inr hourly) \<and>
       map_of (rows hourly ! j) ''Timestamp'' = Some (Datetime b) \<and>
       map_of (rows out ! j) ''Timestamp'' = Some (Datetime b) \<and>
       map_of (rows out ! j) ''hour'' =
         Some (Num (Fin (of_int ((dayofyear b - 1) * 24 + hour b))))) \<and>
    hour_of_year (timestamp 2021 1 1 0 0 0) = 0 \<and>
    hour_of_year (timestamp 2021 1 2 3 0 0) = 27 \<and>
    hour_of_year (timestamp 2021 12 31 23 0 0) = 8759"
proof -
  from hourly_format_rows[OF run] obtain hourly where
    rt: "resample_table env ns_per_hour wind_data = (wind_data', Inr hourly)" and
    len: "length (rows out) = length (rows hourly)" and
    dt: "map_of (columns out) ''Timestamp'' = Some Datetime64" and
    rows: "\<forall>j < length (rows hourly). \<exists>b r.
        rows hourly ! j = (''Timestamp'', Datetime b) # r \<and>
        rows out ! j =
          (''Timestamp'', Datetime b) # AList.update ''hour'' (Num (Fin (of_int (hour_of_year b)))) r"
    by blast
  from j len have "j < length (rows hourly)" by simp
  from rows[rule_format, OF this] obtain b r where
    "rows hourly ! j = (''Timestamp'', Datetime b) # r"
    "rows out ! j =
       (''Timestamp'', Datetime b) # AList.update ''hour'' (Num (Fin (of_int (hour_of_year b)))) r"
    by blast
  then have "map_of (rows hourly ! j) ''Timestamp'' = Some (Datetime b)"
    "map_of (rows out ! j) ''Timestamp'' = Some (Datetime b)"
    "map_of (rows out ! j) ''hour'' = Some (Num (Fin (of_int ((dayofyear b - 1) * 24 + hour b))))"
    by (simp_all add: update_conv' hour_of_year_def)
  with rt dt hour_of_year_examples show ?thesis by blast
qed

text \<open>
  Claim C8. When the \<open>Timestamp\<close> column has a dtype that is not a datetime one, both
  resampling methods raise \<open>AssertionError\<close> with a message that starts with the name
  of the column, and the caller's table is as it was.
\<close>

theorem resampling_asserts_datetime:
  assumes "map_of (columns wind_data) ''Timestamp'' = Some d"
    and "\<not> is_datetime64_any_dtype d"
  shows "hourly_format env wind_data =
      (wind_data, Inl (AssertionError (''Timestamp'' @ '' is not a datetime object''))) \<and>
    hour3_format env wind_data =
      (wind_data, Inl (AssertionError (''Timestamp'' @ '' is not a datetime object'')))"
  using assms
  by (simp add: hourly_format_def hour3_format_def resample_table_def assert_datetime_def)

theorem resampling_asserts_datetime_witness:
  "hourly_format mst_env text_example =
      (text_example, Inl (AssertionError ''Timestamp is not a datetime object'')) \<and>
   hour3_format mst_env text_example =
      (text_example, Inl (AssertionError ''Timestamp is not a datetime object''))"
  using resampling_asserts_datetime [of text_example ObjectT mst_env]
  by (simp add: text_example_def is_datetime64_any_dtype_def)

lemmas resample_eval =
  hourly_format_def hour3_format_def resample_table_def assert_datetime_def tenmin_example_def
  is_datetime64_any_dtype_def set_index_def get_column_def obs_row_def getitem_def
  speed_col_def resample_mean_def datetimes_def time_of_def present_def map_filter_simps
  column_values_def mean_dtype_def numeric_column_def normalize_def
  timestamp_def days_from_civil_def ns_per_day_def ns_per_hour_def bin_labels_def Let_def
  reset_index_def assign_from_def to_datetime_utc_def setitem_def dt_hour_of_year_def
  dt_tz_localize_None_def upt_conv_Cons bin_row_def bin_cell_def bin_mean_def select_mask_def
  in_bin_def wall_clock_def zone_offset_def mst_env_def exact_mean_def fsum_def not_nan_def
  hour_of_year_def dayofyear_def hour_def days_to_yearsdays_def

lemma tenmin_example_hourly: "snd (hourly_format mst_env tenmin_example) = Inr tenmin_hourly"
  by (simp add: resample_eval tenmin_hourly_def)

lemma tenmin_example_6h: "snd (hour3_format mst_env tenmin_example) = Inr tenmin_6h"
  by (simp add: resample_eval tenmin_6h_def)







theorem hourly_format_hour_of_year_witness:
  "\<exists>out. snd (hourly_format mst_env tenmin_example) = Inr out \<and>
     map_of (columns out) ''Timestamp'' = Some Datetime64 \<and>
     map_of (rows out ! 0) ''Timestamp'' = Some (Datetime (timestamp 2021 1 2 3 0 0)) \<and>
     map_of (rows out ! 0) ''hour'' = Some (Num (Fin 27))"
proof -
  obtain wd' where run: "hourly_format mst_env tenmin_example = (wd', Inr tenmin_hourly)"
    using tenmin_example_hourly by (cases "hourly_format mst_env tenmin_example") simp
  have j: "0 < length (rows tenmin_hourly)"
    by (simp add: tenmin_hourly_def)
  from hourly_format_hour_of_year [OF run j] obtain b where
    dt: "map_of (columns tenmin_hourly) ''Timestamp'' = Some Datetime64" and
    b: "map_of (rows tenmin_hourly ! 0) ''Timestamp'' = Some (Datetime b)" and
    h: "map_of (rows tenmin_hourly ! 0) ''hour''
      = Some (Num (Fin (of_int ((dayofyear b - 1) * 24 + hour b))))"
    by blast
  have t: "map_of (rows tenmin_hourly ! 0) ''Timestamp''
      = Some (Datetime (timestamp 2021 1 2 3 0 0))"
    by (simp add: tenmin_hourly_def)
  with b have "b = timestamp 2021 1 2 3 0 0" by simp
  with h hour_of_year_examples(2) have "map_of (rows tenmin_hourly ! 0) ''hour'' = Some (Num (Fin 27))"
    by (simp add: hour_of_year_def)
  with tenmin_example_hourly dt t show ?thesis
    by - (rule exI [of _ tenmin_hourly], (rule conjI, assumption)+, assumption)
qed

subsection \<open>The reanalysis formatter\<close>

lemma assign_from_map:
  assumes a: "assign_from t target d' source f = Inr t'"
    and d: "map_of (columns t) source = Some d"
    and h: "\<forall>r \<in> set (rows t). \<exists>c. map_of r source = Some c \<and> f d c = Inr (h r)"
  shows "rows t' = map (\<lambda>r. AList.update target (h r) r) (rows t) \<and>
    columns t' = AList.update target d' (columns t) \<and> index t' = index t"
proof -
  from assign_from_rows[OF a] d have
    c: "columns t' = AList.update target d' (columns t)" "index t' = index t" and
    l: "length (rows t') = length (rows t)" and
    r: "\<forall>i < length (rows t). \<exists>c c'. map_of (rows t ! i) source = Some c \<and> f d c = Inr c' \<and>
        rows t' ! i = AList.update target c' (rows t ! i)"
    by auto
  have "rows t' ! i = AList.update target (h (rows t ! i)) (rows t ! i)"
    if i: "i < length (rows t)" for i
  proof -
    from i have "rows t ! i \<in> set (rows t)" by simp
    with h obtain c where "map_of (rows t ! i) source = Some c" "f d c = Inr (h (rows t ! i))"
      by blast
    with r[rule_format, OF i] show ?thesis by auto
  qed
  with l have "rows t' = map (\<lambda>r. AList.update target (h r) r) (rows t)"
    by (intro nth_equalityI) simp_all
  with c show ?thesis by blast
qed

lemma select_mask_map:
  "select_mask (map P ts) (map f (zip ts rs)) = map f (filter (\<lambda>(t, r). P t) (zip ts rs))"
  if "length ts = length rs"
  using that by (induction ts rs rule: list_induct2) (simp_all add: select_mask_def)

lemma map_fst_filter_zip:
  "length ts = length rs \<Longrightarrow> map fst (filter (\<lambda>(t, r). P t) (zip ts rs)) = filter P ts"
  by (induction ts rs rule: list_induct2) simp_all

lemma map_of_rename:
  assumes "map_of X new = None"
  shows "map_of (map (\<lambda>(k, c). (if k = old then new else k, c)) X) k' =
    (if k' = new then map_of X old else if k' = old then None else map_of X k')"
  using assms
proof (induction X arbitrary: k')
  case Nil
  then show ?case by simp
next
  case (Cons kc X)
  obtain k c where kc: "kc = (k, c)" by (cases kc)
  from Cons.prems kc have kn: "k \<noteq> new" and rest: "map_of X new = None"
    by (simp_all split: if_splits)
  note ih = Cons.IH[OF rest]
  show ?case
  proof (cases "k = old")
    case True
    with kn show ?thesis by (simp add: kc ih)
  next
    case False
    with kn show ?thesis by (simp add: kc ih)
  qed
qed

lemma traverse_map_total:
  "(\<And>x. x \<in> set xs \<Longrightarrow> f x = Inr (g x)) \<Longrightarrow> traverse f xs = Inr (map g xs)"
  by (induction xs) simp_all

lemma traverse_Inr_unique:
  assumes "traverse f xs = Inr ys" and "\<And>x. x \<in> set xs \<Longrightarrow> f x = Inr (g x)"
  shows "ys = map g xs"
proof -
  from assms(2) have "traverse f xs = Inr (map g xs)" by (rule traverse_map_total)
  with assms(1) show ?thesis by simp
qed

lemma wall_clock_Mountain:
  "wall_clock env (Datetime64TZ ''US/Mountain'') t = t + utcoffset env ''US/Mountain'' t"
  by (simp add: wall_clock_def zone_offset_def)

lemma traverse_cell_le_Datetime:
  "traverse (\<lambda>c. cell_le (Datetime b) c) (map Datetime ts) = Inr (map (\<lambda>t. b \<le> t) ts)"
  by (induction ts) simp_all

lemma get_column_unique:
  assumes "get_column t k = Inr (d, cs)"
    and "\<forall>r \<in> set (rows t). map_of r k = Some (g r)"
  shows "cs = map g (rows t)"
proof -
  from assms(1) have "traverse (\<lambda>r. getitem r k) (rows t) = Inr cs"
    by (auto simp: get_column_def split: option.splits sum.splits)
  moreover have "getitem r k = Inr (g r)" if "r \<in> set (rows t)" for r
    using assms(2) that by (simp add: getitem_def)
  ultimately show ?thesis by (rule traverse_Inr_unique)
qed

lemma format_era5_rows:
  assumes run: "format_era5 env wind_data = (wind_data', Inr out)"
    and col: "get_column wind_data era5_col = Inr (d, cs)"
    and parsed: "traverse (to_datetime_utc env) cs = Inr (map Datetime ts)"
    and bound: "parse_datetime env ''2000-01-01 00:00:00'' = Some w0"
      "localize env ''US/Mountain'' w0 = Some b"
  shows "rows out =
      map (\<lambda>(t, r).
            map (\<lambda>(k, c). (if k = era5_col then ''Timestamp'' else k, c))
              (AList.update era5_col (Datetime (t + utcoffset env ''US/Mountain'' t))
                (AList.update ''hour''
                   (Num (Fin (of_int (hour_of_year (t + utcoffset env ''US/Mountain'' t)))))
                   (AList.update era5_col (Datetime t) r))))
        (filter (\<lambda>(t, r). b \<le> t) (zip ts (rows wind_data))) \<and>
    columns out =
      map (\<lambda>(k, d). (if k = era5_col then ''Timestamp'' else k, d))
        (AList.update era5_col Datetime64
          (AList.update ''hour'' Numeric
            (AList.update era5_col (Datetime64TZ ''US/Mountain'') (columns wind_data)))) \<and>
    rows wind_data' =
      map (\<lambda>(t, r).
            AList.update ''hour''
              (Num (Fin (of_int (hour_of_year (t + utcoffset env ''US/Mountain'' t)))))
              (AList.update era5_col (Datetime t) r))
        (zip ts (rows wind_data)) \<and>
    columns wind_data' =
      AList.update ''hour'' Numeric
        (AList.update era5_col (Datetime64TZ ''US/Mountain'') (columns wind_data))"
proof -
  let ?k = era5_col
  let ?off = "\<lambda>t. t + utcoffset env ''US/Mountain'' t"
  let ?H = "\<lambda>t. Num (Fin (of_int (hour_of_year (?off t))))"
  let ?G = "\<lambda>(t, r). AList.update ''hour'' (?H t) (AList.update ?k (Datetime t) r)"
  let ?n = "length (rows wind_data)"
  note g = get_column_cells[OF col]
  from traverse_length[OF parsed] g have lts: "length ts = ?n" by simp
  have hk: "''hour'' \<noteq> ?k" by (simp add: era5_col_def)
  from run obtain wd1 wd2 wd3 where
    a1: "assign_from wind_data ?k (Datetime64TZ ''UTC'') ?k (\<lambda>d. to_datetime_utc env) = Inr wd1" and
    a2: "assign_from wd1 ?k (Datetime64TZ ''US/Mountain'') ?k (\<lambda>d c. Inr c) = Inr wd2" and
    a3: "assign_from wd2 ''hour'' Numeric ?k (dt_hour_of_year env) = Inr wd3" and
    wd': "wind_data' = wd3"
    by (auto simp: format_era5_def split: sum.splits)
  from run a1 a2 a3 obtain col3 keep formatted_data where
    c3: "get_column wd3 ?k = Inr col3" and
    keep: "ge_column env col3 (Str ''2000-01-01 00:00:00'') = Inr keep" and
    a4: "assign_from (loc_mask keep wd3) ?k Datetime64 ?k (dt_tz_localize_None env)
           = Inr formatted_data" and
    out: "out = rename_column ?k ''Timestamp'' formatted_data"
    by (auto simp: format_era5_def split: sum.splits)
  \<comment> \<open>the first assignment: the parsed instants\<close>
  from assign_from_rows[OF a1] g have
    c1: "columns wd1 = AList.update ?k (Datetime64TZ ''UTC'') (columns wind_data)" and
    l1: "length (rows wd1) = ?n"
    by auto
  have r1: "rows wd1 ! i = AList.update ?k (Datetime (ts ! i)) (rows wind_data ! i)"
    if i: "i < ?n" for i
  proof -
    from a1 col parsed have "wd1 = setitem wind_data ?k (Datetime64TZ ''UTC'') (map Datetime ts)"
      by (simp add: assign_from_def)
    with i lts show ?thesis by (simp add: setitem_def)
  qed
  have rows1: "rows wd1 = map (\<lambda>(t, r). AList.update ?k (Datetime t) r) (zip ts (rows wind_data))"
    using l1 lts r1 by (intro nth_equalityI) simp_all
  \<comment> \<open>the zone conversion keeps the instants\<close>
  have m1: "map_of (columns wd1) ?k = Some (Datetime64TZ ''UTC'')"
    by (simp add: c1 update_conv')
  have h1: "\<forall>r \<in> set (rows wd1). \<exists>c. map_of r ?k = Some c \<and> Inr c = Inr (the (map_of r ?k))"
    by (auto simp: rows1 update_conv' dest!: set_zip_leftD)
  from assign_from_map[OF a2 m1, of "\<lambda>r. the (map_of r ?k)"] h1 have
    rows2': "rows wd2 = map (\<lambda>r. AList.update ?k (the (map_of r ?k)) r) (rows wd1)" and
    c2: "columns wd2 = AList.update ?k (Datetime64TZ ''US/Mountain'') (columns wd1)"
    by simp_all
  have rows2: "rows wd2 = rows wd1"
    unfolding rows2' by (rule map_idI) (auto simp: rows1 update_conv')
  \<comment> \<open>the hour of the year, from the wall clock of the zone\<close>
  have m2: "map_of (columns wd2) ?k = Some (Datetime64TZ ''US/Mountain'')"
    by (simp add: c2 update_conv')
  let ?time = "\<lambda>r. case map_of r ?k of Some (Datetime t) \<Rightarrow> t | _ \<Rightarrow> 0"
  have h2: "\<forall>r \<in> set (rows wd2). \<exists>c. map_of r ?k = Some c \<and>
      dt_hour_of_year env (Datetime64TZ ''US/Mountain'') c = Inr (?H (?time r))"
    by (auto simp: rows2 rows1 update_conv' dt_hour_of_year_def wall_clock_Mountain)
  from assign_from_map[OF a3 m2, of "\<lambda>r. ?H (?time r)"] h2 have
    rows3': "rows wd3 = map (\<lambda>r. AList.update ''hour'' (?H (?time r)) r) (rows wd2)" and
    cols3: "columns wd3 = AList.update ''hour'' Numeric (columns wd2)"
    by simp_all
  have rows3: "rows wd3 = map ?G (zip ts (rows wind_data))"
    unfolding rows3' rows2 rows1 by (auto simp: update_conv')
  \<comment> \<open>the comparison with the first instant of 2000 in the zone\<close>
  have m3: "map_of (columns wd3) ?k = Some (Datetime64TZ ''US/Mountain'')"
    using hk by (simp add: cols3 m2 update_conv')
  obtain d3 cs3 where col3: "col3 = (d3, cs3)" by (cases col3)
  from c3 col3 get_column_cells[of wd3 ?k d3 cs3] m3 have d3: "d3 = Datetime64TZ ''US/Mountain''"
    by simp
  have "cs3 = map (\<lambda>r. Datetime (?time r)) (rows wd3)"
  proof (rule get_column_unique)
    show "get_column wd3 ?k = Inr (d3, cs3)" using c3 col3 by simp
    show "\<forall>r \<in> set (rows wd3). map_of r ?k = Some (Datetime (?time r))"
      using hk by (auto simp: rows3 update_conv')
  qed
  also have "\<dots> = map Datetime ts"
    using lts hk by (intro nth_equalityI) (simp_all add: rows3 update_conv')
  finally have cs3: "cs3 = map Datetime ts" .
  from keep have keep_eq: "keep = map (\<lambda>t. b \<le> t) ts"
    by (simp add: ge_column_def col3 d3 cs3 comparable_bound_def bound traverse_cell_le_Datetime)
  let ?kept = "filter (\<lambda>(t, r). b \<le> t) (zip ts (rows wind_data))"
  have rowsf: "rows (loc_mask keep wd3) = map ?G ?kept"
    by (simp add: loc_mask_def keep_eq rows3 select_mask_map[OF lts])
  \<comment> \<open>dropping the zone, and the new name\<close>
  have mf: "map_of (columns (loc_mask keep wd3)) ?k = Some (Datetime64TZ ''US/Mountain'')"
    by (simp add: loc_mask_def m3)
  have h4: "\<forall>r \<in> set (rows (loc_mask keep wd3)). \<exists>c. map_of r ?k = Some c \<and>
      dt_tz_localize_None env (Datetime64TZ ''US/Mountain'') c = Inr (Datetime (?off (?time r)))"
    using hk by (auto simp: rowsf update_conv' dt_tz_localize_None_def wall_clock_Mountain)
  from assign_from_map[OF a4 mf, of "\<lambda>r. Datetime (?off (?time r))"] h4 have
    rows4': "rows formatted_data
       = map (\<lambda>r. AList.update ?k (Datetime (?off (?time r))) r) (rows (loc_mask keep wd3))" and
    cols4: "columns formatted_data = AList.update ?k Datetime64 (columns (loc_mask keep wd3))"
    by simp_all
  have rows4: "rows formatted_data
      = map (\<lambda>(t, r). AList.update ?k (Datetime (?off t)) (?G (t, r))) ?kept"
    unfolding rows4' rowsf using hk by (auto simp: update_conv')
  have "rows out = map (\<lambda>(t, r).
            map (\<lambda>(k, c). (if k = ?k then ''Timestamp'' else k, c))
              (AList.update ?k (Datetime (?off t)) (?G (t, r)))) ?kept"
    by (simp add: out rename_column_def rows4 split_def)
  moreover have "columns out = map (\<lambda>(k, d). (if k = ?k then ''Timestamp'' else k, d))
        (AList.update ?k Datetime64
          (AList.update ''hour'' Numeric
            (AList.update ?k (Datetime64TZ ''US/Mountain'') (columns wind_data))))"
    by (simp add: out rename_column_def cols4 loc_mask_def cols3 c2 c1)
  moreover have "columns wind_data' = AList.update ''hour'' Numeric
        (AList.update ?k (Datetime64TZ ''US/Mountain'') (columns wind_data))"
    by (simp add: wd' cols3 c2 c1)
  ultimately show ?thesis
    by (simp add: wd' rows3)
qed

lemmas era5_eval =
  format_era5_def assign_from_def get_column_def era_example_def getitem_def era5_col_def
  to_datetime_utc_def mst_env_def setitem_def dt_hour_of_year_def wall_clock_def
  zone_offset_def ge_column_def comparable_bound_def loc_mask_def select_mask_def
  dt_tz_localize_None_def rename_column_def timestamp_def days_from_civil_def
  ns_per_day_def ns_per_hour_def Let_def hour_of_year_def dayofyear_def hour_def
  days_to_yearsdays_def

lemma era_example_formatted: "snd (format_era5 mst_env era_example) = Inr era_formatted"
  by (simp add: era5_eval era_formatted_def)

text \<open>
  Claim C4. Let \<open>ts\<close> be the UTC instants that the column \<open>Date/time [UTC]\<close> parses
  to, and \<open>b\<close> the instant of 2000-01-01 00:00:00 in US/Mountain. The returned table
  holds, in order, exactly the rows with \<open>b \<le> t\<close>; each has under \<open>Timestamp\<close> the
  wall clock of its instant in US/Mountain, without zone, and under \<open>hour\<close> the hour
  of the year of that wall clock; the old column name is gone. For a row in the same
  offset regime as the boundary, \<open>b \<le> t\<close> says that its wall clock is on or after
  2000-01-01 00:00:00.
\<close>

theorem format_era5_pipeline:
  assumes run: "format_era5 env wind_data = (wind_data', Inr out)"
    and col: "get_column wind_data era5_col = Inr (d, cs)"
    and parsed: "traverse (to_datetime_utc env) cs = Inr (map Datetime ts)"
    and bound: "parse_datetime env ''2000-01-01 00:00:00'' = Some w0"
      "localize env ''US/Mountain'' w0 = Some b"
    and fresh: "map_of (columns wind_data) ''Timestamp'' = None"
      "\<forall>r \<in> set (rows wind_data). map_of r ''Timestamp'' = None"
  shows "map (\<lambda>r. (map_of r ''Timestamp'', map_of r ''hour'', map_of r era5_col)) (rows out) =
      map (\<lambda>t. (Some (Datetime (t + utcoffset env ''US/Mountain'' t)),
                 Some (Num (Fin (of_int ((dayofyear (t + utcoffset env ''US/Mountain'' t) - 1) * 24
                                          + hour (t + utcoffset env ''US/Mountain'' t))))),
                 None))
        (filter (\<lambda>t. b \<le> t) ts) \<and>
    map_of (columns out) ''Timestamp'' = Some Datetime64 \<and>
    map_of (columns out) era5_col = None \<and>
    (\<forall>t. utcoffset env ''US/Mountain'' t = utcoffset env ''US/Mountain'' b \<and>
         b + utcoffset env ''US/Mountain'' b = w0 \<longrightarrow>
         (b \<le> t \<longleftrightarrow> w0 \<le> t + utcoffset env ''US/Mountain'' t))"
proof -
  let ?k = era5_col
  let ?off = "\<lambda>t. t + utcoffset env ''US/Mountain'' t"
  let ?H = "\<lambda>t. Num (Fin (of_int (hour_of_year (?off t))))"
  let ?R = "\<lambda>(t, r). map (\<lambda>(k, c). (if k = ?k then ''Timestamp'' else k, c))
              (AList.update ?k (Datetime (?off t))
                (AList.update ''hour'' (?H t) (AList.update ?k (Datetime t) r)))"
  let ?kept = "filter (\<lambda>(t, r). b \<le> t) (zip ts (rows wind_data))"
  note f = format_era5_rows[OF run col parsed bound]
  from f have rows: "rows out = map ?R ?kept" by blast
  note g = get_column_cells[OF col]
  from traverse_length[OF parsed] g have lts: "length ts = length (rows wind_data)" by simp
  have ne: "''hour'' \<noteq> ?k" "''Timestamp'' \<noteq> ?k" "''Timestamp'' \<noteq> ''hour''"
    by (simp_all add: era5_col_def)
  have look: "(map_of (?R (t, r)) ''Timestamp'', map_of (?R (t, r)) ''hour'', map_of (?R (t, r)) ?k)
      = (Some (Datetime (?off t)), Some (?H t), None)"
    if "map_of r ''Timestamp'' = None" for t r
  proof -
    let ?X = "AList.update ?k (Datetime (?off t))
                (AList.update ''hour'' (?H t) (AList.update ?k (Datetime t) r))"
    from that ne have "map_of ?X ''Timestamp'' = None" by (simp add: update_conv')
    from map_of_rename[OF this, of ?k] ne show ?thesis
      by (simp add: update_conv')
  qed
  have "map (\<lambda>r. (map_of r ''Timestamp'', map_of r ''hour'', map_of r ?k)) (rows out)
      = map (\<lambda>(t, r). (Some (Datetime (?off t)), Some (?H t), None)) ?kept"
    unfolding rows map_map
  proof (rule map_cong[OF refl])
    fix p assume "p \<in> set ?kept"
    then obtain t r where p: "p = (t, r)" and "r \<in> set (rows wind_data)"
      by (auto dest: set_zip_rightD)
    with fresh(2) have "map_of r ''Timestamp'' = None" by blast
    from look[OF this] show "((\<lambda>r. (map_of r ''Timestamp'', map_of r ''hour'', map_of r ?k)) \<circ> ?R) p
        = (case p of (t, r) \<Rightarrow> (Some (Datetime (?off t)), Some (?H t), None))"
      by (simp add: p)
  qed
  also have "\<dots> = map (\<lambda>t. (Some (Datetime (?off t)), Some (?H t), None)) (map fst ?kept)"
    by (simp add: split_def)
  also have "map fst ?kept = filter (\<lambda>t. b \<le> t) ts"
    by (rule map_fst_filter_zip[OF lts])
  finally have main: "map (\<lambda>r. (map_of r ''Timestamp'', map_of r ''hour'', map_of r ?k)) (rows out)
      = map (\<lambda>t. (Some (Datetime (?off t)), Some (?H t), None)) (filter (\<lambda>t. b \<le> t) ts)" .
  let ?C = "AList.update ?k Datetime64
          (AList.update ''hour'' Numeric
            (AList.update ?k (Datetime64TZ ''US/Mountain'') (columns wind_data)))"
  from f have cols: "columns out = map (\<lambda>(k, d). (if k = ?k then ''Timestamp'' else k, d)) ?C"
    by blast
  from fresh(1) ne have "map_of ?C ''Timestamp'' = None" by (simp add: update_conv')
  from map_of_rename[OF this, of ?k] ne have
    "map_of (columns out) ''Timestamp'' = Some Datetime64" "map_of (columns out) ?k = None"
    by (simp_all add: cols update_conv')
  moreover have "\<forall>t. utcoffset env ''US/Mountain'' t = utcoffset env ''US/Mountain'' b \<and>
         b + utcoffset env ''US/Mountain'' b = w0 \<longrightarrow> (b \<le> t \<longleftrightarrow> w0 \<le> ?off t)"
    by auto
  ultimately show ?thesis
    using main by (simp add: hour_of_year_def)
qed

theorem format_era5_pipeline_witness:
  "snd (format_era5 mst_env era_example) = Inr era_formatted \<and>
   map (\<lambda>r. (map_of r ''Timestamp'', map_of r ''hour'', map_of r era5_col)) (rows era_formatted) =
     [(Some (Datetime (timestamp 2000 1 1 0 0 0)), Some (Num (Fin 0)), None),
      (Some (Datetime (timestamp 2000 1 2 5 0 0)), Some (Num (Fin 29)), None)]"
proof -
  obtain wd' where run: "format_era5 mst_env era_example = (wd', Inr era_formatted)"
    using era_example_formatted by (cases "format_era5 mst_env era_example") simp
  have col: "get_column era_example era5_col =
      Inr (ObjectT, [Str ''2000-01-01T06:00:00'', Str ''2000-01-01T07:00:00'',
                     Str ''2000-01-02T12:00:00''])"
    by (simp add: get_column_def era_example_def getitem_def)
  have parsed: "traverse (to_datetime_utc mst_env)
      [Str ''2000-01-01T06:00:00'', Str ''2000-01-01T07:00:00'', Str ''2000-01-02T12:00:00'']
      = Inr (map Datetime [timestamp 2000 1 1 6 0 0, timestamp 2000 1 1 7 0 0,
                           timestamp 2000 1 2 12 0 0])"
    by (simp add: to_datetime_utc_def mst_env_def)
  have bound: "parse_datetime mst_env ''2000-01-01 00:00:00'' = Some (timestamp 2000 1 1 0 0 0)"
    "localize mst_env ''US/Mountain'' (timestamp 2000 1 1 0 0 0)
       = Some (timestamp 2000 1 1 7 0 0)"
    by (simp_all add: mst_env_def timestamp_def days_from_civil_def ns_per_hour_def)
  have fresh: "map_of (columns era_example) ''Timestamp'' = None"
    "\<forall>r \<in> set (rows era_example). map_of r ''Timestamp'' = None"
    by (simp_all add: era_example_def era5_col_def)
  from format_era5_pipeline [OF run col parsed bound fresh]
  have "map (\<lambda>r. (map_of r ''Timestamp'', map_of r ''hour'', map_of r era5_col)) (rows era_formatted) =
     [(Some (Datetime (timestamp 2000 1 1 0 0 0)), Some (Num (Fin 0)), None),
      (Some (Datetime (timestamp 2000 1 2 5 0 0)), Some (Num (Fin 29)), None)]"
    by (simp add: mst_env_def timestamp_def days_from_civil_def ns_per_hour_def ns_per_day_def
        dayofyear_def hour_def days_to_yearsdays_def Let_def)
  with era_example_formatted show ?thesis by simp
qed


subsection \<open>What the methods do to the table they are given\<close>

lemma update_key_set: "fst ` set (AList.update k v al) = insert k (fst ` set al)"
proof -
  have "set (map fst (AList.update k v al)) = insert k (set (map fst al))"
    by (auto simp: update_keys split: if_splits)
  then show ?thesis by (simp only: list.set_map)
qed

lemma adjust_height_columns:
  assumes "adjust_height h t = Inr t'"
  shows "new_col h \<in> fst ` set (columns t') \<and> fst ` set (columns t) \<subseteq> fst ` set (columns t')"
proof -
  from assms obtain d cs where "t' = setitem t (new_col h) d cs"
    by (auto simp: adjust_height_def split: sum.splits prod.splits)
  then have "columns t' = AList.update (new_col h) d (columns t)"
    by (simp add: setitem_def)
  then show ?thesis
    by (simp only: update_key_set) blast
qed

lemma convert_pressure_columns:
  assumes "convert_pressure t = Inr t'"
  shows "fst ` set (columns t) \<subseteq> fst ` set (columns t')"
proof -
  from assms obtain cs where "t' = setitem t pres_col Numeric cs"
    by (auto simp: convert_pressure_def split: sum.splits prod.splits)
  then have "columns t' = AList.update pres_col Numeric (columns t)"
    by (simp add: setitem_def)
  then show ?thesis
    by (simp only: update_key_set) blast
qed

lemma wind_shear_caller_Inr:
  assumes "wind_shear env t = (t', Inr out)"
  shows "\<exists>shear. t' = setitem t ''shear'' Numeric shear"
  using assms by (auto simp: wind_shear_def Let_def split: sum.splits prod.splits if_splits)

lemma format_era5_caller:
  assumes "format_era5 env t = (t', Inr out)"
  shows "columns t' = AList.update ''hour'' Numeric
        (AList.update era5_col (Datetime64TZ ''US/Mountain'')
          (AList.update era5_col (Datetime64TZ ''UTC'') (columns t)))"
proof -
  from assms obtain wd1 wd2 where
    a1: "assign_from t era5_col (Datetime64TZ ''UTC'') era5_col (\<lambda>d. to_datetime_utc env) = Inr wd1" and
    a2: "assign_from wd1 era5_col (Datetime64TZ ''US/Mountain'') era5_col (\<lambda>d c. Inr c) = Inr wd2" and
    a3: "assign_from wd2 ''hour'' Numeric era5_col (dt_hour_of_year env) = Inr t'"
    by (auto simp: format_era5_def split: sum.splits)
  from assign_from_rows[OF a1] assign_from_rows[OF a2] assign_from_rows[OF a3]
  show ?thesis by auto
qed

text \<open>
  Claim C7, as the code has it. \<open>concurrent_data\<close> and \<open>scale_training_data\<close> leave
  the caller's table as it was. \<open>adjust_wind_met\<close> works on the caller's table: the
  table it returns is the caller's table after the call, with the two adjusted columns
  in it. \<open>wind_shear\<close> and \<open>format_era5\<close> return a new table, after assigning the
  column \<open>shear\<close>, respectively the converted date column and \<open>hour\<close>, to the
  caller's table.
\<close>

theorem frame_of_operations:
  "fst (concurrent_data env t start_date end_date) = t \<and>
   fst (scale_training_data env t scale_up scale_mid) = t \<and>
   (\<forall>t' out. adjust_wind_met t = (t', Inr out) \<longrightarrow>
      t' = out \<and> new_col ''59.1'' \<in> fst ` set (columns t') \<and>
      new_col ''46'' \<in> fst ` set (columns t')) \<and>
   (\<forall>t' out. wind_shear env t = (t', Inr out) \<longrightarrow> map_of (columns t') ''shear'' = Some Numeric) \<and>
   (\<forall>t' out. format_era5 env t = (t', Inr out) \<longrightarrow>
      map_of (columns t') ''hour'' = Some Numeric \<and>
      map_of (columns t') era5_col = Some (Datetime64TZ ''US/Mountain''))"
proof -
  have "t' = out \<and> new_col ''59.1'' \<in> fst ` set (columns t') \<and>
      new_col ''46'' \<in> fst ` set (columns t')"
    if "adjust_wind_met t = (t', Inr out)" for t' out
  proof -
    from adjust_wind_met_steps[OF that] obtain t1 t2 where
      s: "adjust_height ''59.1'' t = Inr t1" "adjust_height ''46'' t1 = Inr t2"
        "convert_pressure t2 = Inr out" "t' = out"
      by blast
    from adjust_height_columns[OF s(1)] adjust_height_columns[OF s(2)]
      convert_pressure_columns[OF s(3)] s(4)
    show ?thesis by blast
  qed
  moreover have "map_of (columns t') ''shear'' = Some Numeric"
    if "wind_shear env t = (t', Inr out)" for t' out
    using wind_shear_caller_Inr[OF that] by (auto simp: setitem_def update_conv')
  moreover have "map_of (columns t') ''hour'' = Some Numeric \<and>
      map_of (columns t') era5_col = Some (Datetime64TZ ''US/Mountain'')"
    if "format_era5 env t = (t', Inr out)" for t' out
    using format_era5_caller[OF that] by (simp add: update_conv' era5_col_def)
  moreover have "fst (concurrent_data env t start_date end_date) = t"
    by (simp add: concurrent_data_def)
  moreover have "fst (scale_training_data env t scale_up scale_mid) = t"
    by (simp add: scale_training_data_def)
  ultimately show ?thesis by blast
qed

lemma met_example_caller:
  "map fst (columns (fst (adjust_wind_met met_example))) =
     map fst (columns met_example) @ [new_col ''59.1'', new_col ''46'']"
  by (simp add: adjust_wind_met_def adjust_heights_MET adjust_height_def apply_rows_def
      met_example_def met_row_def adjusted_wind_helper_def getitem_def mean_of_two_def
      wdirec_def east_col_def sw_col_def new_col_def pres_col_def fge_def infer_dtype_def
      setitem_def convert_pressure_def get_column_def div_by_def)

lemma lidar_example_caller:
  "map fst (columns (fst (wind_shear mst_env lidar_example))) =
     map fst (columns lidar_example) @ [''shear'']"
  by (simp add: wind_shear_def get_column_def lidar_example_def lidar_row_def getitem_def
      shear_cell_def shear_of_def rdiv_def rln_def rounded_def mst_env_def setitem_def
      select_columns_def inf_of_sign_def ln_51_23_nonzero
      log_quotient_dtypes_def is_datetime64_any_dtype_def)

lemma era_example_caller:
  "columns (fst (format_era5 mst_env era_example)) =
     [(era5_col, Datetime64TZ ''US/Mountain''), (''wind_speed'', Numeric), (''hour'', Numeric)]"
  by (simp add: era5_eval)

text \<open>
  The claim as the specification words it fails for three of the five methods: after
  the call the caller's table differs from the table that was passed.
\<close>

theorem frame_of_operations_counterexample:
  "fst (adjust_wind_met met_example) \<noteq> met_example \<and>
   fst (wind_shear mst_env lidar_example) \<noteq> lidar_example \<and>
   fst (format_era5 mst_env era_example) \<noteq> era_example"
proof -
  have "fst (adjust_wind_met met_example) \<noteq> met_example"
  proof
    assume "fst (adjust_wind_met met_example) = met_example"
    with met_example_caller show False by simp
  qed
  moreover have "fst (wind_shear mst_env lidar_example) \<noteq> lidar_example"
  proof
    assume "fst (wind_shear mst_env lidar_example) = lidar_example"
    with lidar_example_caller show False by simp
  qed
  moreover have "fst (format_era5 mst_env era_example) \<noteq> era_example"
  proof
    assume "fst (format_era5 mst_env era_example) = era_example"
    with era_example_caller show False by (simp add: era_example_def)
  qed
  ultimately show ?thesis by blast
qed

theorem frame_of_operations_witness:
  "fst (concurrent_data mst_env obs_example (Datetime 0) (Datetime 3600000000000)) = obs_example \<and>
   fst (scale_training_data mst_env pair_example (Fin 2) (Fin 1)) = pair_example \<and>
   (\<exists>out. adjust_wind_met met_example = (out, Inr out) \<and>
      new_col ''59.1'' \<in> fst ` set (columns out)) \<and>
   map_of (columns (fst (wind_shear mst_env lidar_example))) ''shear'' = Some Numeric \<and>
   map_of (columns (fst (format_era5 mst_env era_example))) ''hour'' = Some Numeric"
proof -
  note f = frame_of_operations
  from met_example_runs obtain out where m: "adjust_wind_met met_example = (out, Inr out)"
    by blast
  with f [of mst_env met_example "Datetime 0" "Datetime 0" "Fin 1" "Fin 1"]
  have a: "\<exists>out. adjust_wind_met met_example = (out, Inr out) \<and>
      new_col ''59.1'' \<in> fst ` set (columns out)"
    by blast
  obtain l' where l: "wind_shear mst_env lidar_example = (l', Inr lidar_sheared)"
    using lidar_example_sheared by (cases "wind_shear mst_env lidar_example") simp
  with f [of mst_env lidar_example "Datetime 0" "Datetime 0" "Fin 1" "Fin 1"]
  have b: "map_of (columns (fst (wind_shear mst_env lidar_example))) ''shear'' = Some Numeric"
    by simp
  obtain e' where e: "format_era5 mst_env era_example = (e', Inr era_formatted)"
    using era_example_formatted by (cases "format_era5 mst_env era_example") simp
  with f [of mst_env era_example "Datetime 0" "Datetime 0" "Fin 1" "Fin 1"]
  have c: "map_of (columns (fst (format_era5 mst_env era_example))) ''hour'' = Some Numeric"
    by simp
  from f [of mst_env obs_example "Datetime 0" "Datetime 3600000000000" "Fin 1" "Fin 1"]
  have d: "fst (concurrent_data mst_env obs_example (Datetime 0) (Datetime 3600000000000))
      = obs_example"
    by blast
  from f [of mst_env pair_example "Datetime 0" "Datetime 0" "Fin 2" "Fin 1"]
  have e: "fst (scale_training_data mst_env pair_example (Fin 2) (Fin 1)) = pair_example"
    by blast
  from a b c d e show ?thesis by blast
qed

end
